theory Spec2Isabelle
  imports Main
begin

section \<open>Go values shared by the server and the client\<close>

text \<open>
  A Go \<^verbatim>\<open>string\<close> is a sequence of bytes; it is modelled as \<^typ>\<open>string\<close>, one
  \<^typ>\<open>char\<close> per byte. A \<^verbatim>\<open>time.Duration\<close> is a number of nanoseconds.
\<close>

type_synonym duration = int

definition Second :: duration where
  "Second = 1000000000"

text \<open>
  A dynamically typed value (\<^verbatim>\<open>interface{}\<close>) as \<^verbatim>\<open>encoding/json\<close> produces it. The
  programs only ever ask whether such a value is a \<^verbatim>\<open>map[string]interface{}\<close> or a
  \<^verbatim>\<open>string\<close>; a map is an association list read with \<^const>\<open>map_of\<close>.
\<close>

datatype any = ANil | ABool bool | ANumber int | AString string
  | AList "any list" | AMap "(string \<times> any) list"

text \<open>The type assertions \<^verbatim>\<open>v.(map[string]interface{})\<close> and \<^verbatim>\<open>v.(string)\<close>, with
  their \<^verbatim>\<open>ok\<close> result as an option.\<close>

fun assert_map :: "any \<Rightarrow> (string \<times> any) list option" where
  "assert_map (AMap m) = Some m"
| "assert_map _ = None"

fun assert_string :: "any \<Rightarrow> string option" where
  "assert_string (AString s) = Some s"
| "assert_string _ = None"

text \<open>\<^verbatim>\<open>m[key]\<close> on a Go map: the zero value \<^verbatim>\<open>nil\<close> when the key is absent.\<close>

definition index_map :: "(string \<times> any) list \<Rightarrow> string \<Rightarrow> any" where
  "index_map m k = (case map_of m k of None \<Rightarrow> ANil | Some v \<Rightarrow> v)"

text \<open>The content blocks of an MCP tool result, and the result itself.\<close>

datatype content = TextContent string | ImageContent string string | EmbeddedResource string

record CallToolResult =
  Content :: "content list"
  IsError :: bool

definition empty_CallToolResult :: CallToolResult where
  "empty_CallToolResult = \<lparr>Content = [], IsError = False\<rparr>"

definition NewToolResultText :: "string \<Rightarrow> CallToolResult" where
  "NewToolResultText t = \<lparr>Content = [TextContent t], IsError = False\<rparr>"

subsection \<open>Formatting integers (\<^verbatim>\<open>%d\<close>)\<close>

definition digit :: "nat \<Rightarrow> char" where
  "digit d = ''0123456789'' ! d"

function fmt_uint :: "nat \<Rightarrow> string" where
  "fmt_uint n = (if n < 10 then [digit n] else fmt_uint (n div 10) @ [digit (n mod 10)])"
  by pat_completeness auto
termination
  by (relation "measure id") auto

declare fmt_uint.simps [simp del]

definition fmt_d :: "int \<Rightarrow> string" where
  "fmt_d i = (if i < 0 then CHR ''-'' # fmt_uint (nat (- i)) else fmt_uint (nat i))"

section \<open>The server: splitting the argument string\<close>

text \<open>
  \<^verbatim>\<open>handleCommandExecution\<close> tokenizes with \<^verbatim>\<open>strings.Fields\<close> and prints the tokens with
  \<^verbatim>\<open>strings.Join\<close>. Both belong to Go's standard library. \<^verbatim>\<open>Fields\<close> splits around runs
  of white space as \<^verbatim>\<open>unicode.IsSpace\<close> defines it, reading the bytes as UTF-8 the way a
  \<^verbatim>\<open>range\<close> loop over a string does: an ill-formed byte is the rune \<^verbatim>\<open>U+FFFD\<close> of width 1.
\<close>

definition RuneError :: int where
  "RuneError = 0xFFFD"

text \<open>The table \<^verbatim>\<open>first\<close> of package \<^verbatim>\<open>utf8\<close>: for a leading byte, the length of its
  sequence and the range accepted for the second byte.\<close>

definition first :: "int \<Rightarrow> (nat \<times> int \<times> int) option" where
  "first b =
    (if 0xC2 \<le> b \<and> b \<le> 0xDF then Some (2, 0x80, 0xBF)
     else if b = 0xE0 then Some (3, 0xA0, 0xBF)
     else if 0xE1 \<le> b \<and> b \<le> 0xEC then Some (3, 0x80, 0xBF)
     else if b = 0xED then Some (3, 0x80, 0x9F)
     else if 0xEE \<le> b \<and> b \<le> 0xEF then Some (3, 0x80, 0xBF)
     else if b = 0xF0 then Some (4, 0x90, 0xBF)
     else if 0xF1 \<le> b \<and> b \<le> 0xF3 then Some (4, 0x80, 0xBF)
     else if b = 0xF4 then Some (4, 0x80, 0x8F)
     else None)"

definition byte_at :: "string \<Rightarrow> nat \<Rightarrow> int" where
  "byte_at s i = of_char (s ! i)"

definition DecodeRuneInString :: "string \<Rightarrow> int \<times> nat" where
  "DecodeRuneInString s =
    (if length s < 1 then (RuneError, 0)
     else let s0 = byte_at s 0 in
       if s0 < 0x80 then (s0, 1)
       else (case first s0 of
           None \<Rightarrow> (RuneError, 1)
         | Some (sz, lo, hi) \<Rightarrow>
             if length s < sz then (RuneError, 1)
             else let s1 = byte_at s 1 in
               if s1 < lo \<or> hi < s1 then (RuneError, 1)
               else if sz \<le> 2 then ((s0 mod 32) * 64 + s1 mod 64, 2)
               else let s2 = byte_at s 2 in
                 if s2 < 0x80 \<or> 0xBF < s2 then (RuneError, 1)
                 else if sz \<le> 3 then ((s0 mod 16) * 4096 + (s1 mod 64) * 64 + s2 mod 64, 3)
                 else let s3 = byte_at s 3 in
                   if s3 < 0x80 \<or> 0xBF < s3 then (RuneError, 1)
                   else ((s0 mod 8) * 262144 + (s1 mod 64) * 4096 + (s2 mod 64) * 64
                           + s3 mod 64, 4)))"

text \<open>\<^verbatim>\<open>unicode.IsSpace\<close>: the Latin-1 white space, and the \<^verbatim>\<open>White_Space\<close> table beyond it.\<close>

definition IsSpace :: "int \<Rightarrow> bool" where
  "IsSpace r =
    (if r \<le> 0xFF then r \<in> {0x09, 0x0A, 0x0B, 0x0C, 0x0D, 0x20, 0x85, 0xA0}
     else r = 0x1680 \<or> (0x2000 \<le> r \<and> r \<le> 0x200A) \<or> r = 0x2028 \<or> r = 0x2029
       \<or> r = 0x202F \<or> r = 0x205F \<or> r = 0x3000)"

text \<open>\<^verbatim>\<open>for _, r := range s\<close>: the runes of \<^verbatim>\<open>s\<close> in order, each with the bytes it was
  decoded from.\<close>

function range_string :: "string \<Rightarrow> (int \<times> string) list" where
  "range_string [] = []"
| "range_string (c # cs) =
    (let (r, w) = DecodeRuneInString (c # cs)
     in (r, take w (c # cs)) # range_string (drop w (c # cs)))"
  by pat_completeness auto
termination
proof (relation "measure length")
  show "wf (measure length)" by simp
next
  fix c :: char and cs :: string and x :: "int \<times> nat" and r :: int and w :: nat
  assume x: "x = DecodeRuneInString (c # cs)" and rw: "(r, w) = x"
  have "0 < snd (DecodeRuneInString (c # cs))"
    by (simp add: DecodeRuneInString_def Let_def split: option.split prod.split)
  with x rw have "0 < w" by (metis snd_conv)
  then show "(drop w (c # cs), c # cs) \<in> measure length" by simp
qed

text \<open>\<^verbatim>\<open>strings.FieldsFunc\<close>: \<^verbatim>\<open>start\<close> is the field being read, if any; a rune that
  satisfies \<^verbatim>\<open>f\<close> ends it, and the last field may end with the string.\<close>

fun FieldsFunc_loop :: "(int \<Rightarrow> bool) \<Rightarrow> string option \<Rightarrow> (int \<times> string) list \<Rightarrow> string list" where
  "FieldsFunc_loop f start [] = (case start of None \<Rightarrow> [] | Some field \<Rightarrow> [field])"
| "FieldsFunc_loop f start ((r, bs) # rest) =
    (if f r then
       (case start of
          Some field \<Rightarrow> field # FieldsFunc_loop f None rest
        | None \<Rightarrow> FieldsFunc_loop f None rest)
     else
       (case start of
          None \<Rightarrow> FieldsFunc_loop f (Some bs) rest
        | Some field \<Rightarrow> FieldsFunc_loop f (Some (field @ bs)) rest))"

definition FieldsFunc :: "string \<Rightarrow> (int \<Rightarrow> bool) \<Rightarrow> string list" where
  "FieldsFunc s f = FieldsFunc_loop f None (range_string s)"

definition Fields :: "string \<Rightarrow> string list" where
  "Fields s = FieldsFunc s IsSpace"

fun Join :: "string list \<Rightarrow> string \<Rightarrow> string" where
  "Join [] sep = []"
| "Join [e] sep = e"
| "Join (e # es) sep = e @ sep @ Join es sep"

subsection \<open>Notions for reasoning about fields\<close>

text \<open>
  A continuation byte of UTF-8 (\<^verbatim>\<open>0x80\<close> to \<^verbatim>\<open>0xBF\<close>) can only follow a leading byte. A
  string stands at a boundary when it is empty or does not start with one: what precedes it
  is then decoded the same whether or not it follows.
\<close>

definition continuation_byte :: "char \<Rightarrow> bool" where
  "continuation_byte c = (0x80 \<le> (of_char c :: int) \<and> (of_char c :: int) \<le> 0xBF)"

definition boundary :: "string \<Rightarrow> bool" where
  "boundary u = (case u of [] \<Rightarrow> True | c # cs \<Rightarrow> \<not> continuation_byte c)"

text \<open>A whole field: a non-empty string of runes that are not white space, decoded the same
  in front of any string that stands at a boundary.\<close>

definition whole_field :: "string \<Rightarrow> bool" where
  "whole_field t \<longleftrightarrow> t \<noteq> [] \<and> list_all (\<lambda>y. \<not> IsSpace (fst y)) (range_string t)
     \<and> (\<forall>u. boundary u \<longrightarrow> range_string (t @ u) = range_string t @ range_string u)"

text \<open>The bytes read so far of the field that \<^const>\<open>FieldsFunc_loop\<close> is in.\<close>

fun field_so_far :: "string option \<Rightarrow> string" where
  "field_so_far None = []"
| "field_so_far (Some f) = f"

section \<open>The server: \<^verbatim>\<open>handleCommandExecution\<close>\<close>

subsection \<open>Formatting a \<^verbatim>\<open>time.Duration\<close> (\<^verbatim>\<open>%v\<close>)\<close>

text \<open>
  \<^verbatim>\<open>%v\<close> prints a duration with \<^verbatim>\<open>Duration.String\<close> of package \<^verbatim>\<open>time\<close>: \<^verbatim>\<open>fmtFrac\<close> writes
  the fraction without trailing zeros in front of the buffer, \<^verbatim>\<open>fmtInt\<close> the integer part.
\<close>

primrec fmtFrac_loop :: "nat \<Rightarrow> nat \<Rightarrow> bool \<Rightarrow> string \<Rightarrow> string \<times> nat \<times> bool" where
  "fmtFrac_loop 0 v prt buf = (buf, v, prt)"
| "fmtFrac_loop (Suc i) v prt buf =
    (let d = v mod 10; prt' = (prt \<or> d \<noteq> 0)
     in fmtFrac_loop i (v div 10) prt' (if prt' then digit d # buf else buf))"

definition fmtFrac :: "string \<Rightarrow> nat \<Rightarrow> nat \<Rightarrow> string \<times> nat" where
  "fmtFrac buf v prec =
    (let (buf', v', prt) = fmtFrac_loop prec v False buf
     in (if prt then CHR ''.'' # buf' else buf', v'))"

definition fmtInt :: "string \<Rightarrow> nat \<Rightarrow> string" where
  "fmtInt buf v = fmt_uint v @ buf"

definition Duration_String :: "duration \<Rightarrow> string" where
  "Duration_String d =
    (let u = nat \<bar>d\<bar>; neg = (d < 0);
         buf =
          (if u < 1000000000 then
             (if u = 0 then ''0s''
              else
                let (unit, prec) =
                      (if u < 1000 then (''ns'', 0)
                       else if u < 1000000 then ([CHR 0xC2, CHR 0xB5, CHR ''s''], 3)
                       else (''ms'', 6));
                    (b, u') = fmtFrac unit u prec
                in fmtInt b u')
           else
             let (b, u1) = fmtFrac ''s'' u 9;
                 b1 = fmtInt b (u1 mod 60);
                 u2 = u1 div 60
             in if u2 > 0 then
                  let b2 = fmtInt (CHR ''m'' # b1) (u2 mod 60);
                      u3 = u2 div 60
                  in if u3 > 0 then fmtInt (CHR ''h'' # b2) u3 else b2
                else b1)
     in if neg then CHR ''-'' # buf else buf)"

subsection \<open>Running the command\<close>

text \<open>
  What the handler reads after \<^verbatim>\<open>cmd.Run()\<close>: the error \<^verbatim>\<open>Run\<close> returned (\<^verbatim>\<open>nil\<close>, an
  \<^verbatim>\<open>*exec.ExitError\<close> with its \<^verbatim>\<open>ExitCode()\<close>, or another error with its text), the two
  buffers, and \<^verbatim>\<open>ctx.Err()\<close> of the context that carries the timeout. The operating system
  and \<^verbatim>\<open>os/exec\<close> decide them; the handler takes them from an executor, a function of the
  command name, the tokens and the timeout.
\<close>

datatype run_error = ExitError int | OtherError string

datatype ctx_error = Canceled | DeadlineExceeded

record run_outcome =
  run_err :: "run_error option"
  stdout :: string
  stderr :: string
  ctx_Err :: "ctx_error option"

type_synonym executor = "string \<Rightarrow> string list \<Rightarrow> duration \<Rightarrow> run_outcome"

text \<open>The effects of one call, in order: a line printed with \<^verbatim>\<open>fmt.Printf\<close>, and the child
  process run.\<close>

datatype server_event = Printed string | Ran string "string list" duration

record CallToolRequest =
  req_Name :: string
  req_Arguments :: any

text \<open>The handler returns the pair \<^verbatim>\<open>(*mcp.CallToolResult, error)\<close>; the error is its text.\<close>

definition handleCommandExecution ::
  "executor \<Rightarrow> CallToolRequest \<Rightarrow> string \<Rightarrow> duration
    \<Rightarrow> (CallToolResult \<times> string option) \<times> server_event list" where
  "handleCommandExecution run request commandName timeout =
    (case assert_map (req_Arguments request) of
       None \<Rightarrow> ((empty_CallToolResult, Some ''invalid arguments format''), [])
     | Some args \<Rightarrow>
        (case assert_string (index_map args ''arguments'') of
           None \<Rightarrow>
             ((empty_CallToolResult,
               Some (''missing or invalid '' @ commandName @ '' argument'')), [])
         | Some cmdArgs \<Rightarrow>
            let commandArgs = Fields cmdArgs;
                started =
                  [Printed (''executing command: '' @ commandName @ '' ''
                             @ Join commandArgs '' '' @ ''\<newline>''),
                   Ran commandName commandArgs timeout];
                out = run commandName commandArgs timeout
            in (case run_err out of
                  Some (ExitError code) \<Rightarrow>
                    let msg = commandName @ '' exited with code '' @ fmt_d code @ '': ''
                                @ stderr out
                    in ((empty_CallToolResult, Some msg),
                        started @ [Printed (msg @ ''\<newline>'')])
                | Some (OtherError e) \<Rightarrow>
                    if ctx_Err out = Some DeadlineExceeded then
                      let msg = commandName @ '' command timed out after ''
                                  @ Duration_String timeout
                      in ((empty_CallToolResult, Some msg),
                          started @ [Printed (msg @ ''\<newline>'')])
                    else
                      let msg = commandName @ '' execution failed: '' @ e
                                  @ ''\<newline>stderr: '' @ stderr out
                      in ((empty_CallToolResult, Some msg), started @ [Printed msg])
                | None \<Rightarrow>
                    let output =
                          (if stdout out = [] then
                             ''Command executed successfully with no output''
                           else stdout out)
                    in ((NewToolResultText output, None), started))))"

text \<open>The two tools \<^verbatim>\<open>main\<close> registers: each runs its own command with a timeout of
  30 seconds.\<close>

definition registered_tools :: "(string \<times> (executor \<Rightarrow> CallToolRequest
    \<Rightarrow> (CallToolResult \<times> string option) \<times> server_event list)) list" where
  "registered_tools =
    [(''k8sgpt'', \<lambda>run req. handleCommandExecution run req ''k8sgpt'' (30 * Second)),
     (''kubectl'', \<lambda>run req. handleCommandExecution run req ''kubectl'' (30 * Second))]"

text \<open>
  What \<^verbatim>\<open>os/exec\<close> hands back when the deadline of the context passes while the child is
  still running: \<^verbatim>\<open>CommandContext\<close> kills the child, \<^verbatim>\<open>Wait\<close> reports a child that did not
  end successfully as an \<^verbatim>\<open>*exec.ExitError\<close>, whose \<^verbatim>\<open>ExitCode()\<close> is \<^verbatim>\<open>-1\<close> for a process
  ended by a signal, and \<^verbatim>\<open>ctx.Err()\<close> is \<^verbatim>\<open>context.DeadlineExceeded\<close>. The arguments are
  what the child wrote before it was killed.
\<close>

definition killed_at_deadline :: "string \<Rightarrow> string \<Rightarrow> run_outcome" where
  "killed_at_deadline out err =
    \<lparr>run_err = Some (ExitError (- 1)), stdout = out, stderr = err,
     ctx_Err = Some DeadlineExceeded\<rparr>"

text \<open>The runs of a command (the calls of \<^verbatim>\<open>cmd.Run\<close>) among the effects of a call.\<close>

fun runs_of :: "server_event list \<Rightarrow> (string \<times> string list \<times> duration) list" where
  "runs_of [] = []"
| "runs_of (Ran c a t # es) = (c, a, t) # runs_of es"
| "runs_of (Printed l # es) = runs_of es"

section \<open>The client: \<^verbatim>\<open>runPrompt\<close>\<close>

text \<open>
  A conversation message (role and content), a tool-call intent of the oracle (the function's
  name and its JSON-encoded arguments), the message of a completion's choice, and a tool as
  the server lists it.
\<close>

record ChatCompletionMessage =
  msg_Role :: string
  msg_Content :: string

record ToolCall =
  Function_Name :: string
  Function_Arguments :: string

record CompletionMessage =
  Message_Content :: string
  Message_ToolCalls :: "ToolCall list"

record Tool =
  tool_Name :: string
  tool_Description :: string

text \<open>The tool definition sent to the oracle; its parameter schema is the same for every
  tool (one required string, \<^verbatim>\<open>arguments\<close>) and is left out, as are the constant seed and
  model name of \<^verbatim>\<open>params\<close>.\<close>

record ChatCompletionToolParam =
  fn_Name :: string
  fn_Description :: string

text \<open>
  The collaborators of the loop, over a state \<^typ>\<open>'w\<close> of the outside world that each
  call may change:
  \<^item> \<^verbatim>\<open>client.Chat.Completions.New\<close>, given the messages and the tool definitions of
    \<^verbatim>\<open>params\<close>: an error text, or the messages of the completion's choices;
  \<^item> \<^verbatim>\<open>mcpClient.CallTool\<close>, given the timeout of its context: the pair of a result pointer
    (\<^verbatim>\<open>nil\<close> is \<^const>\<open>None\<close>) and an error;
  \<^item> \<^verbatim>\<open>json.Unmarshal\<close> into a \<^verbatim>\<open>map[string]interface{}\<close>: an error text or the map;
  \<^item> \<^verbatim>\<open>%v\<close> of a result's content.
\<close>

record 'w collaborators =
  Completions_New :: "ChatCompletionMessage list \<Rightarrow> ChatCompletionToolParam list \<Rightarrow> 'w
    \<Rightarrow> (string + CompletionMessage list) \<times> 'w"
  mcp_CallTool :: "duration \<Rightarrow> CallToolRequest \<Rightarrow> 'w
    \<Rightarrow> (CallToolResult option \<times> string option) \<times> 'w"
  json_Unmarshal :: "string \<Rightarrow> string + (string \<times> any) list"
  fmt_v :: "content list \<Rightarrow> string"

text \<open>The effects of a run, in order: a line printed, a pause, a request to the oracle
  (with the messages sent), a tool invoked.\<close>

datatype event = Print string | Sleep duration | Asked "ChatCompletionMessage list"
  | Invoked CallToolRequest

record 'w run_state =
  Messages :: "ChatCompletionMessage list"
  world :: 'w
  trace :: "event list"

definition printf :: "string \<Rightarrow> 'w run_state \<Rightarrow> 'w run_state" where
  "printf line st = st\<lparr>trace := trace st @ [Print line]\<rparr>"

definition sleep :: "duration \<Rightarrow> 'w run_state \<Rightarrow> 'w run_state" where
  "sleep d st = st\<lparr>trace := trace st @ [Sleep d]\<rparr>"

definition append_message :: "ChatCompletionMessage \<Rightarrow> 'w run_state \<Rightarrow> 'w run_state" where
  "append_message m st = st\<lparr>Messages := Messages st @ [m]\<rparr>"

text \<open>The body of \<^verbatim>\<open>for _, toolCall := range toolCalls\<close>.\<close>

definition toolCall_body :: "'w collaborators \<Rightarrow> int \<Rightarrow> 'w run_state \<Rightarrow> ToolCall \<Rightarrow> 'w run_state" where
  "toolCall_body env iteration st toolCall =
    (let st1 = printf (''Iteration '' @ fmt_d iteration @ '' - Tool call: ''
                        @ Function_Name toolCall @ ''\<newline>'') st;
         st2 = printf (''Tool call arguments: '' @ Function_Arguments toolCall @ ''\<newline>'') st1
     in case json_Unmarshal env (Function_Arguments toolCall) of
          Inl err \<Rightarrow>
            append_message
              \<lparr>msg_Role = ''system'',
               msg_Content = ''Error parsing tool arguments: '' @ err
                 @ ''. Please try again with valid JSON.''\<rparr> st2
        | Inr args \<Rightarrow>
            let req = \<lparr>req_Name = Function_Name toolCall, req_Arguments = AMap args\<rparr>;
                ((toolResultPtr, err), w) = mcp_CallTool env (30 * Second) req (world st2);
                st3 = st2\<lparr>world := w, trace := trace st2 @ [Invoked req]\<rparr>
            in (case err of
                  Some e \<Rightarrow>
                    let st4 = printf (''tool execution failed or timeout: '' @ e @ ''\<newline>'') st3;
                        st5 = printf ''sleeping for 2 seconds, before retrying\<newline>'' st4;
                        st6 = sleep (2 * Second) st5
                    in append_message
                         \<lparr>msg_Role = ''system'',
                          msg_Content = ''Tool execution failed with error: '' @ e
                            @ ''\<newline>Please try a different approach.''\<rparr> st6
                | None \<Rightarrow>
                    (case toolResultPtr of
                       None \<Rightarrow> st3
                     | Some toolResult \<Rightarrow>
                         if length (Content toolResult) > 0 then
                           let st4 = printf (''Tool result content: ''
                                              @ fmt_v env (Content toolResult) @ ''\<newline>'') st3;
                               toolResultMsg = fmt_v env (Content toolResult);
                               st5 = append_message
                                       \<lparr>msg_Role = ''assistant'', msg_Content = toolResultMsg\<rparr> st4
                           in append_message
                                \<lparr>msg_Role = ''system'',
                                 msg_Content = ''If you have obtained the requested information. Please return it directly to the user without making additional tool calls.''\<rparr>
                                st5
                         else st3)))"

text \<open>What \<^verbatim>\<open>runPrompt\<close> returns: \<^verbatim>\<open>nil\<close>, an error, or a run-time panic
  (\<^verbatim>\<open>completion.Choices[0]\<close> on a completion without choices).\<close>

datatype outcome = ReturnNil | ReturnError string | Panic string

text \<open>The loop \<^verbatim>\<open>for iteration < maxIterations\<close> and the lines after it.\<close>

function runPrompt_loop :: "'w collaborators \<Rightarrow> ChatCompletionToolParam list \<Rightarrow> int \<Rightarrow> int
    \<Rightarrow> 'w run_state \<Rightarrow> outcome \<times> 'w run_state" where
  "runPrompt_loop env toolDefinitions maxIterations iteration st =
    (if iteration < maxIterations then
       (case Completions_New env (Messages st) toolDefinitions (world st) of
          (Inl err, w) \<Rightarrow>
            (ReturnError (''failed to create chat completion: '' @ err),
             st\<lparr>world := w, trace := trace st @ [Asked (Messages st)]\<rparr>)
        | (Inr choices, w) \<Rightarrow>
            let st1 = st\<lparr>world := w, trace := trace st @ [Asked (Messages st)]\<rparr>
            in (case choices of
                  [] \<Rightarrow> (Panic ''runtime error: index out of range [0] with length 0'', st1)
                | choice # others \<Rightarrow>
                    if Message_Content choice \<noteq> [] then
                      (ReturnNil,
                       printf (''\<newline>Got LLM response: '' @ Message_Content choice
                                @ ''\<newline>Task completed after '' @ fmt_d (iteration - 1)
                                @ '' iterations\<newline>'') st1)
                    else if length (Message_ToolCalls choice) = 0 then
                      (ReturnNil,
                       printf (''\<newline>No more tool calls, task completed after ''
                                @ fmt_d (iteration - 1) @ '' iterations\<newline>'') st1)
                    else
                      let st2 = printf ''checking for tool calls\<newline>'' st1;
                          st3 = foldl (toolCall_body env iteration) st2 (Message_ToolCalls choice)
                      in runPrompt_loop env toolDefinitions maxIterations (iteration + 1) st3))
     else
       (ReturnNil,
        printf (''\<newline>Reached maximum iterations ('' @ fmt_d maxIterations
                 @ '') without completing the task\<newline>'') st))"
  by pat_completeness auto
termination
  by (relation "measure (\<lambda>(env, toolDefinitions, maxIterations, iteration, st).
        nat (maxIterations - iteration))") auto

declare runPrompt_loop.simps [simp del]

definition systemPrompt :: string where
  "systemPrompt = ''You are an expert Kubernetes engineer with deep knowledge of cluster operations, troubleshooting, and best practices. Your primary goal is to understand the user's intent and respond appropriately.\<newline>\<newline>IMPORTANT: Only provide analysis or interpretation when explicitly asked. For all other requests, just return the raw output.\<newline>\<newline>When executing commands:\<newline>- Plan your tool calls efficiently to minimize the number of calls needed\<newline>- Once you have obtained the requested information, return it immediately\<newline>- Do not make additional tool calls if you already have the information\<newline>- Do not repeat the same tool call unless absolutely necessary\<newline>- Consider combining commands where possible to reduce the number of calls\<newline>\<newline>When the user wants you to fix issues or take action:\<newline>- Use k8sgpt tool to get an initial analysis which should include a list of issues and a summary of the issues.\<newline>- Use kubectl tool to implement the necessary fixes. Do not use \"kubectl edit  \" command rather use \"kubectl path\" command to fix the issues.\<newline>- Verify the fixes worked\<newline>- Report back on what was fixed\<newline>- Do not provide analysis or steps unless specifically requested\<newline>\<newline>When the user wants just to know if there is an issue with the cluster:\<newline>- Do not make any changes to the cluster unless the user explicitly asks you to do so.\<newline>- Use k8sgpt tool to get an initial analysis\<newline>- Use kubectl tool to get more detailed information\<newline>- Provide a clear, human-friendly explanation of the issues\<newline>- If asked provide a step-by-step plan to fix each issues\<newline>- If asked provide specific kubectl commands that would be needed to fix the issues\<newline>\<newline>When the user asks for specific information (like logs, status, etc.):\<newline>- Execute the requested command and return ONLY the raw output\<newline>- DO NOT analyze or interpret the output\<newline>- DO NOT add any explanations or summaries\<newline>- DO NOT format or modify the output\<newline>- If the user wants analysis, they will explicitly ask for it\<newline>\<newline>Pay close attention to the user's exact request and whether they want you to make changes or just provide suggestions. Always provide clear explanations and consider security, performance, and reliability in your recommendations.''"

definition initial_Messages :: "string \<Rightarrow> ChatCompletionMessage list" where
  "initial_Messages question =
    [\<lparr>msg_Role = ''system'', msg_Content = systemPrompt\<rparr>,
     \<lparr>msg_Role = ''user'', msg_Content = question\<rparr>]"

text \<open>\<^verbatim>\<open>runPrompt\<close>: \<^verbatim>\<open>maxIterations := 5\<close>, \<^verbatim>\<open>iteration := 1\<close>.\<close>

definition runPrompt :: "string \<Rightarrow> Tool list \<Rightarrow> 'w collaborators \<Rightarrow> 'w
    \<Rightarrow> outcome \<times> 'w run_state" where
  "runPrompt question listTools env w =
    (let toolDefinitions =
           map (\<lambda>tool. \<lparr>fn_Name = tool_Name tool, fn_Description = tool_Description tool\<rparr>)
             listTools;
         st = \<lparr>Messages = initial_Messages question, world = w, trace = []\<rparr>
     in runPrompt_loop env toolDefinitions 5 1 st)"

text \<open>Counting the effects of a run: requests to the oracle, tools invoked, pauses.\<close>

fun asked :: "event list \<Rightarrow> nat" where
  "asked [] = 0"
| "asked (Asked m # es) = Suc (asked es)"
| "asked (e # es) = asked es"

fun invoked :: "event list \<Rightarrow> nat" where
  "invoked [] = 0"
| "invoked (Invoked r # es) = Suc (invoked es)"
| "invoked (e # es) = invoked es"

fun printed :: "event list \<Rightarrow> string list" where
  "printed [] = []"
| "printed (Print l # es) = l # printed es"
| "printed (e # es) = printed es"


text \<open>The line printed when the loop gives up.\<close>

definition exhausted_line :: "int \<Rightarrow> string" where
  "exhausted_line maxIterations = ''\<newline>Reached maximum iterations ('' @ fmt_d maxIterations
     @ '') without completing the task\<newline>''"

subsection \<open>Collaborators for the examples\<close>

text \<open>
  Stand-ins for the oracle and the tool service, over a world without state: an oracle that
  always asks for one tool call and never answers, one that answers and asks for a tool call
  in the same response, one that does neither; a tool service that always fails, and one
  that succeeds with empty content; an oracle that cannot be reached, and a tool service
  that succeeds with a line of text. The stand-in for \<^verbatim>\<open>%v\<close> writes a slice of content
  blocks as \<^verbatim>\<open>fmt\<close> writes a slice of structs: the blocks between brackets and separated
  by a space, each block as its fields between braces, the first of them the embedded
  \<^verbatim>\<open>Annotated\<close> with its nil pointer, the second the type of the block.
\<close>

definition example_toolCall :: ToolCall where
  "example_toolCall =
    \<lparr>Function_Name = ''kubectl'', Function_Arguments = ''{\"arguments\": \"get pods\"}''\<rparr>"

definition example_Unmarshal :: "string \<Rightarrow> string + (string \<times> any) list" where
  "example_Unmarshal s =
    (if s = ''{\"arguments\": \"get pods\"}'' then Inr [(''arguments'', AString ''get pods'')]
     else Inl ''invalid character'')"

definition tool_call_oracle :: "ChatCompletionMessage list \<Rightarrow> ChatCompletionToolParam list \<Rightarrow> unit
    \<Rightarrow> (string + CompletionMessage list) \<times> unit" where
  "tool_call_oracle msgs tools w =
    (Inr [\<lparr>Message_Content = [], Message_ToolCalls = [example_toolCall]\<rparr>], w)"

definition text_and_tool_oracle :: "ChatCompletionMessage list \<Rightarrow> ChatCompletionToolParam list
    \<Rightarrow> unit \<Rightarrow> (string + CompletionMessage list) \<times> unit" where
  "text_and_tool_oracle msgs tools w =
    (Inr [\<lparr>Message_Content = ''2 pods running'', Message_ToolCalls = [example_toolCall]\<rparr>], w)"

definition silent_oracle :: "ChatCompletionMessage list \<Rightarrow> ChatCompletionToolParam list \<Rightarrow> unit
    \<Rightarrow> (string + CompletionMessage list) \<times> unit" where
  "silent_oracle msgs tools w = (Inr [\<lparr>Message_Content = [], Message_ToolCalls = []\<rparr>], w)"

definition failing_tool :: "duration \<Rightarrow> CallToolRequest \<Rightarrow> unit
    \<Rightarrow> (CallToolResult option \<times> string option) \<times> unit" where
  "failing_tool d req w = ((None, Some ''connection refused''), w)"

definition empty_tool :: "duration \<Rightarrow> CallToolRequest \<Rightarrow> unit
    \<Rightarrow> (CallToolResult option \<times> string option) \<times> unit" where
  "empty_tool d req w = ((Some empty_CallToolResult, None), w)"

definition failing_oracle :: "ChatCompletionMessage list \<Rightarrow> ChatCompletionToolParam list \<Rightarrow> unit
    \<Rightarrow> (string + CompletionMessage list) \<times> unit" where
  "failing_oracle msgs tools w = (Inl ''401 Unauthorized'', w)"

definition text_tool :: "duration \<Rightarrow> CallToolRequest \<Rightarrow> unit
    \<Rightarrow> (CallToolResult option \<times> string option) \<times> unit" where
  "text_tool d req w = ((Some (NewToolResultText ''pod-a Running''), None), w)"

fun content_v :: "content \<Rightarrow> string" where
  "content_v (TextContent t) = ''{{<nil>} text '' @ t @ ''}''"
| "content_v (ImageContent d mimeType) = ''{{<nil>} image '' @ d @ '' '' @ mimeType @ ''}''"
| "content_v (EmbeddedResource r) = ''{{<nil>} resource '' @ r @ ''}''"

definition example_env ::
  "(ChatCompletionMessage list \<Rightarrow> ChatCompletionToolParam list \<Rightarrow> unit
      \<Rightarrow> (string + CompletionMessage list) \<times> unit)
    \<Rightarrow> (duration \<Rightarrow> CallToolRequest \<Rightarrow> unit \<Rightarrow> (CallToolResult option \<times> string option) \<times> unit)
    \<Rightarrow> unit collaborators" where
  "example_env oracle tool =
    \<lparr>Completions_New = oracle, mcp_CallTool = tool, json_Unmarshal = example_Unmarshal,
     fmt_v = (\<lambda>cs. ''['' @ Join (map content_v cs) '' '' @ '']'')\<rparr>"

definition example_state :: "unit run_state" where
  "example_state = \<lparr>Messages = initial_Messages ''are my pods healthy?'', world = (), trace = []\<rparr>"


text \<open>Executors for the examples: a command that ends with the given status and output.\<close>

definition exits_with :: "int \<Rightarrow> string \<Rightarrow> string \<Rightarrow> executor" where
  "exits_with code out err =
    (\<lambda>commandName commandArgs timeout.
       \<lparr>run_err = (if code = 0 then None else Some (ExitError code)),
        stdout = out, stderr = err, ctx_Err = None\<rparr>)"

text \<open>A command whose run fails with an error that is not an exit status.\<close>

definition fails_with :: "string \<Rightarrow> ctx_error option \<Rightarrow> executor" where
  "fails_with e c =
    (\<lambda>commandName commandArgs timeout.
       \<lparr>run_err = Some (OtherError e), stdout = [], stderr = [], ctx_Err = c\<rparr>)"

definition example_request :: "any \<Rightarrow> CallToolRequest" where
  "example_request a = \<lparr>req_Name = ''kubectl'', req_Arguments = a\<rparr>"

section \<open>Evaluation rules\<close>

lemma fmt_uint_small: "n < 10 \<Longrightarrow> fmt_uint n = [digit n]"
  by (simp add: fmt_uint.simps)

lemma fmt_uint_large: "\<not> n < 10 \<Longrightarrow> fmt_uint n = fmt_uint (n div 10) @ [digit (n mod 10)]"
  by (subst fmt_uint.simps) simp

lemmas fmt_eval = fmt_d_def fmt_uint_small fmt_uint_large digit_def

lemmas Fields_eval = Fields_def FieldsFunc_def DecodeRuneInString_def byte_at_def IsSpace_def
  first_def RuneError_def

lemma fmtFrac_loop_numeral:
  "fmtFrac_loop (numeral k) v prt buf =
    (let d = v mod 10; prt' = (prt \<or> d \<noteq> 0)
     in fmtFrac_loop (pred_numeral k) (v div 10) prt' (if prt' then digit d # buf else buf))"
  by (simp only: numeral_eq_Suc fmtFrac_loop.simps)

lemma Duration_String_30s: "Duration_String (30 * Second) = ''30s''"
proof -
  have "fmtFrac ''s'' 30000000000 9 = (''s'', 30)"
    by (simp add: fmtFrac_def fmtFrac_loop_numeral Let_def)
  then show ?thesis
    by (simp add: Duration_String_def Second_def fmtInt_def fmt_uint_small fmt_uint_large
        digit_def)
qed

section \<open>The server: fields of the argument string\<close>

subsection \<open>Decoding one rune\<close>

lemma first_range:
  "first b = Some (sz, lo, hi) \<Longrightarrow> 2 \<le> sz \<and> sz \<le> 4 \<and> 0x80 \<le> lo \<and> hi \<le> 0xBF"
  by (auto simp: first_def split: if_splits)

lemma first_continuation: "0x80 \<le> b \<Longrightarrow> b \<le> 0xBF \<Longrightarrow> first b = None"
  by (simp add: first_def)

lemma decode_width:
  assumes "s \<noteq> []"
  shows "0 < snd (DecodeRuneInString s) \<and> snd (DecodeRuneInString s) \<le> length s"
proof (cases "first (byte_at s 0)")
  case None
  with assms show ?thesis
    by (cases s) (simp_all add: DecodeRuneInString_def Let_def)
next
  case (Some t)
  then obtain sz lo hi where f: "first (byte_at s 0) = Some (sz, lo, hi)" by (cases t) auto
  from first_range [OF f] have "sz = 2 \<or> sz = 3 \<or> sz = 4" by auto
  with assms f show ?thesis
    by (cases s) (auto simp: DecodeRuneInString_def Let_def Suc_le_eq)
qed

lemma decode_continuation:
  "continuation_byte c \<Longrightarrow> DecodeRuneInString (c # cs) = (RuneError, 1)"
  by (simp add: DecodeRuneInString_def continuation_byte_def byte_at_def first_continuation)

lemma decode_append1:
  assumes "\<not> continuation_byte x"
  shows "DecodeRuneInString (c0 # a @ x # r) = DecodeRuneInString (c0 # a)"
proof (cases "first (of_char c0)")
  case None
  then show ?thesis by (simp add: DecodeRuneInString_def byte_at_def Let_def)
next
  case (Some t)
  then obtain sz lo hi where f: "first (of_char c0) = Some (sz, lo, hi)" by (cases t) auto
  from first_range [OF f] have sz: "sz = 2 \<or> sz = 3 \<or> sz = 4" and lo: "0x80 \<le> lo" and hi: "hi \<le> 0xBF"
    by auto
  from assms lo hi have x1: "of_char x < lo \<or> hi < of_char x"
    by (auto simp: continuation_byte_def)
  from assms have x2: "(of_char x :: int) < 0x80 \<or> 0xBF < (of_char x :: int)"
    by (auto simp: continuation_byte_def)
  show ?thesis
  proof (cases a)
    case Nil
    with f sz x1 show ?thesis
      by (auto simp: DecodeRuneInString_def byte_at_def Let_def)
  next
    case a1: (Cons c1 a1)
    show ?thesis
    proof (cases a1)
      case Nil
      with a1 f sz x2 show ?thesis
        by (auto simp: DecodeRuneInString_def byte_at_def Let_def)
    next
      case a2: (Cons c2 a2)
      show ?thesis
      proof (cases a2)
        case Nil
        with a1 a2 f sz x2 show ?thesis
          by (auto simp: DecodeRuneInString_def byte_at_def Let_def)
      next
        case (Cons c3 a3)
        with a1 a2 f sz show ?thesis
          by (auto simp: DecodeRuneInString_def byte_at_def Let_def)
      qed
    qed
  qed
qed

lemma decode_append:
  "a \<noteq> [] \<Longrightarrow> boundary t \<Longrightarrow> DecodeRuneInString (a @ t) = DecodeRuneInString a"
  by (cases a; cases t) (simp_all add: boundary_def decode_append1)

subsection \<open>Decoding a string\<close>

lemma range_string_step:
  "s \<noteq> [] \<Longrightarrow> range_string s =
     (fst (DecodeRuneInString s), take (snd (DecodeRuneInString s)) s)
       # range_string (drop (snd (DecodeRuneInString s)) s)"
  by (cases s) (simp_all add: case_prod_beta)

lemma range_string_empty: "range_string s = [] \<longleftrightarrow> s = []"
  by (cases s) (simp_all add: case_prod_beta)

lemma range_string_bytes: "concat (map snd (range_string s)) = s"
proof (induction "length s" arbitrary: s rule: less_induct)
  case less
  show ?case
  proof (cases "s = []")
    case True
    then show ?thesis by simp
  next
    case False
    from decode_width [OF False]
    have "length (drop (snd (DecodeRuneInString s)) s) < length s" by auto
    from less [OF this] range_string_step [OF False] show ?thesis by simp
  qed
qed

lemma aligned_prefix:
  assumes "range_string (a @ b) = ys @ range_string b"
    and "concat (map snd ys) = a"
    and "boundary b" and "boundary t"
  shows "range_string (a @ t) = ys @ range_string t"
  using assms(1,2)
proof (induction ys arbitrary: a)
  case Nil
  then show ?case by simp
next
  case (Cons y ys)
  define w where "w = snd (DecodeRuneInString (a @ b))"
  define p where "p = take w (a @ b)"
  from Cons.prems(1) have "range_string (a @ b) \<noteq> []" by simp
  then have ne: "a @ b \<noteq> []" by (simp only: range_string_empty not_False_eq_True)
  from range_string_step [OF ne] Cons.prems(1)
  have y: "y = (fst (DecodeRuneInString (a @ b)), p)"
    and rest: "range_string (drop w (a @ b)) = ys @ range_string b"
    by (simp_all add: w_def p_def)
  from decode_width [OF ne] have w: "0 < w" "w \<le> length (a @ b)"
    by (simp_all add: w_def)
  then have lp: "length p = w" by (simp add: p_def)
  from Cons.prems(2) y have a: "a = p @ concat (map snd ys)"
    by simp
  from a lp have la: "w \<le> length a" and tk: "take w a = p"
    and a': "concat (map snd ys) = drop w a"
    by simp_all
  from la w have ane: "a \<noteq> []" by auto
  from la have dr: "drop w (a @ b) = drop w a @ b"
    by simp
  have d: "DecodeRuneInString (a @ t) = DecodeRuneInString (a @ b)"
    using decode_append [OF ane assms(3)] decode_append [OF ane assms(4)] by simp
  from ane have "a @ t \<noteq> []" by simp
  from range_string_step [OF this] d la
  have "range_string (a @ t) = (fst (DecodeRuneInString (a @ b)), take w a)
      # range_string (drop w a @ t)"
    by (simp add: w_def)
  moreover from rest dr have "range_string (drop w a @ b) = ys @ range_string b" by simp
  from Cons.IH [OF this a'] have "range_string (drop w a @ t) = ys @ range_string t" .
  ultimately show ?case using y tk by simp
qed

lemma whole_from_aligned:
  assumes "ys \<noteq> []" and "list_all (\<lambda>y. \<not> IsSpace (fst y)) ys"
    and "range_string (concat (map snd ys) @ b) = ys @ range_string b"
    and "boundary b"
  shows "whole_field (concat (map snd ys))"
proof -
  have al: "boundary u \<Longrightarrow> range_string (concat (map snd ys) @ u) = ys @ range_string u" for u
    using aligned_prefix [OF assms(3) refl assms(4)] by simp
  from al [of "[]"] have r: "range_string (concat (map snd ys)) = ys"
    by (simp add: boundary_def)
  with assms(1) have "concat (map snd ys) \<noteq> []"
    by (metis range_string.simps(1))
  with r al assms(2) show ?thesis by (simp add: whole_field_def)
qed

lemma loop_nonspace_run:
  "ys \<noteq> [] \<Longrightarrow> list_all (\<lambda>y. \<not> f (fst y)) ys \<Longrightarrow>
   FieldsFunc_loop f start (ys @ zs)
     = FieldsFunc_loop f (Some (field_so_far start @ concat (map snd ys))) zs"
proof (induction ys arbitrary: start)
  case Nil
  then show ?case by simp
next
  case (Cons y ys)
  obtain r bs where y: "y = (r, bs)" by (cases y)
  from Cons.prems y have nr: "\<not> f r" by simp
  have step: "FieldsFunc_loop f start (y # ys @ zs)
      = FieldsFunc_loop f (Some (field_so_far start @ bs)) (ys @ zs)"
    using nr y by (cases start) simp_all
  show ?case
  proof (cases ys)
    case Nil
    with step y show ?thesis by simp
  next
    case (Cons y' ys')
    with Cons.prems Cons.IH [of "Some (field_so_far start @ bs)"] step y
    show ?thesis by simp
  qed
qed

lemma range_string_space: "range_string (CHR '' '' # r) = (0x20, '' '') # range_string r"
  by (simp add: DecodeRuneInString_def byte_at_def)

lemma Fields_Join_whole:
  "list_all whole_field ts \<Longrightarrow> Fields (Join ts '' '') = ts"
proof (induction ts "'' ''" rule: Join.induct)
  case 1
  then show ?case by (simp add: Fields_def FieldsFunc_def)
next
  case (2 e)
  then have w: "whole_field e" by simp
  then have "range_string e \<noteq> []" and "list_all (\<lambda>y. \<not> IsSpace (fst y)) (range_string e)"
    by (simp_all add: whole_field_def range_string_empty)
  from loop_nonspace_run [OF this, of None "[]"] show ?case
    by (simp add: Fields_def FieldsFunc_def range_string_bytes)
next
  case (3 e v va)
  then have w: "whole_field e" and rest: "list_all whole_field (v # va)" by simp_all
  from w have ne: "range_string e \<noteq> []"
    and ns: "list_all (\<lambda>y. \<not> IsSpace (fst y)) (range_string e)"
    by (simp_all add: whole_field_def range_string_empty)
  have b: "boundary (CHR '' '' # Join (v # va) '' '')"
    by (simp add: boundary_def continuation_byte_def)
  with w have "range_string (e @ CHR '' '' # Join (v # va) '' '')
      = range_string e @ range_string (CHR '' '' # Join (v # va) '' '')"
    by (simp only: whole_field_def)
  then have "range_string (e @ CHR '' '' # Join (v # va) '' '')
      = range_string e @ (0x20, '' '') # range_string (Join (v # va) '' '')"
    by (simp only: range_string_space)
  then have "Fields (Join (e # v # va) '' '')
      = FieldsFunc_loop IsSpace None
          (range_string e @ (0x20, '' '') # range_string (Join (v # va) '' ''))"
    by (simp add: Fields_def FieldsFunc_def)
  also have "\<dots> = FieldsFunc_loop IsSpace (Some e)
          ((0x20, '' '') # range_string (Join (v # va) '' ''))"
    using loop_nonspace_run [OF ne ns, of None]
    by (simp add: range_string_bytes)
  also have "\<dots> = e # Fields (Join (v # va) '' '')"
    by (simp add: Fields_def FieldsFunc_def IsSpace_def)
  finally show ?case using 3(1) [OF rest] by simp
qed

subsection \<open>The fields are whole, and joining whole fields keeps them\<close>

lemma space_starts_at_boundary:
  assumes "s \<noteq> []" and "IsSpace (fst (DecodeRuneInString s))"
  shows "boundary s"
proof (cases s)
  case Nil
  with assms show ?thesis by simp
next
  case (Cons c cs)
  have "\<not> continuation_byte c"
  proof
    assume "continuation_byte c"
    from decode_continuation [OF this, of cs] Cons assms(2) show False
      by (simp add: IsSpace_def RuneError_def)
  qed
  with Cons show ?thesis by (simp add: boundary_def)
qed

lemma fields_are_whole:
  assumes "list_all (\<lambda>y. \<not> IsSpace (fst y)) ys"
    and "range_string (concat (map snd ys) @ z) = ys @ range_string z"
  shows "list_all whole_field
    (FieldsFunc_loop IsSpace (if ys = [] then None else Some (concat (map snd ys)))
       (range_string z))"
  using assms
proof (induction "length z" arbitrary: z ys rule: less_induct)
  case less
  show ?case
  proof (cases "z = []")
    case True
    with less.prems whole_from_aligned [of ys "[]"] show ?thesis
      by (simp add: boundary_def)
  next
    case False
    define r where "r = fst (DecodeRuneInString z)"
    define w where "w = snd (DecodeRuneInString z)"
    define p where "p = take w z"
    define z' where "z' = drop w z"
    from decode_width [OF False] have shorter: "length z' < length z"
      by (auto simp: z'_def w_def)
    have step: "range_string z = (r, p) # range_string z'"
      using range_string_step [OF False] by (simp add: r_def w_def p_def z'_def)
    have z: "z = p @ z'" by (simp add: p_def z'_def)
    show ?thesis
    proof (cases "IsSpace r")
      case True
      then have b: "boundary z"
        using space_starts_at_boundary [OF False] by (simp add: r_def)
      have "list_all (\<lambda>y. \<not> IsSpace (fst y)) []"
        and "range_string (concat (map snd []) @ z') = [] @ range_string z'"
        by simp_all
      from less.hyps [OF shorter this]
      have tail: "list_all whole_field (FieldsFunc_loop IsSpace None (range_string z'))"
        by simp
      show ?thesis
      proof (cases "ys = []")
        case True
        with step \<open>IsSpace r\<close> tail show ?thesis by simp
      next
        case False
        from whole_from_aligned [OF False less.prems b]
        have "whole_field (concat (map snd ys))" .
        with False step \<open>IsSpace r\<close> tail show ?thesis by simp
      qed
    next
      case False
      have ns: "list_all (\<lambda>y. \<not> IsSpace (fst y)) (ys @ [(r, p)])"
        using False less.prems(1) by simp
      have al: "range_string (concat (map snd (ys @ [(r, p)])) @ z')
          = (ys @ [(r, p)]) @ range_string z'"
        using less.prems(2) step z by simp
      from less.hyps [OF shorter ns al]
      have "list_all whole_field
          (FieldsFunc_loop IsSpace (Some (concat (map snd ys) @ p)) (range_string z'))"
        by simp
      with step False show ?thesis by (cases "ys = []") simp_all
    qed
  qed
qed

text \<open>
  C9. \<^verbatim>\<open>strings.Fields\<close>, with which the handler splits the argument string, gives no field
  for the empty string, and joining the fields of any string with single spaces and
  splitting again gives the same fields.
\<close>

theorem Fields_idempotent:
  "Fields [] = [] \<and> Fields (Join (Fields s) '' '') = Fields s"
proof
  show "Fields [] = []"
    by (simp add: Fields_def FieldsFunc_def)
next
  have "list_all whole_field (Fields s)"
    using fields_are_whole [of "[]" s] by (simp add: Fields_def FieldsFunc_def)
  then show "Fields (Join (Fields s) '' '') = Fields s"
    by (rule Fields_Join_whole)
qed

theorem Fields_idempotent_witness:
  "Fields ''get  pods -n kube-system '' = [''get'', ''pods'', ''-n'', ''kube-system'']
   \<and> Join (Fields ''get  pods -n kube-system '') '' '' = ''get pods -n kube-system''
   \<and> Fields ''get pods -n kube-system'' = [''get'', ''pods'', ''-n'', ''kube-system'']"
proof -
  have f: "Fields ''get  pods -n kube-system '' = [''get'', ''pods'', ''-n'', ''kube-system'']"
    by (simp add: Fields_eval)
  then have j: "Join (Fields ''get  pods -n kube-system '') '' '' = ''get pods -n kube-system''"
    by simp
  from Fields_idempotent [of "''get  pods -n kube-system ''"] f j show ?thesis
    by simp
qed

section \<open>The server: what \<^const>\<open>handleCommandExecution\<close> returns\<close>

lemma handler_invalid_format:
  "assert_map (req_Arguments request) = None \<Longrightarrow>
   handleCommandExecution run request commandName timeout =
     ((empty_CallToolResult, Some ''invalid arguments format''), [])"
  by (simp add: handleCommandExecution_def)

lemma handler_missing_argument:
  "assert_map (req_Arguments request) = Some args \<Longrightarrow>
   assert_string (index_map args ''arguments'') = None \<Longrightarrow>
   handleCommandExecution run request commandName timeout =
     ((empty_CallToolResult, Some (''missing or invalid '' @ commandName @ '' argument'')), [])"
  by (simp add: handleCommandExecution_def)

text \<open>A request with a string under \<^verbatim>\<open>arguments\<close> runs the command exactly once, whatever
  the command does.\<close>

lemma handler_runs_once:
  assumes "assert_map (req_Arguments request) = Some args"
    and "assert_string (index_map args ''arguments'') = Some cmdArgs"
  shows "runs_of (snd (handleCommandExecution run request commandName timeout))
    = [(commandName, Fields cmdArgs, timeout)]"
  using assms
  by (simp add: handleCommandExecution_def Let_def split: option.split run_error.split)

lemma handler_killed_at_deadline:
  assumes "assert_map (req_Arguments request) = Some args"
    and "assert_string (index_map args ''arguments'') = Some cmdArgs"
    and "run commandName (Fields cmdArgs) timeout = killed_at_deadline out err"
  shows "fst (handleCommandExecution run request commandName timeout) =
      (empty_CallToolResult, Some (commandName @ '' exited with code -1: '' @ err))"
  using assms
  by (simp add: handleCommandExecution_def Let_def killed_at_deadline_def fmt_eval)

text \<open>
  C1. A command that is still running when the timeout passes is killed, and the handler
  should report a timeout with the configured duration. The handler tests for an
  \<^verbatim>\<open>*exec.ExitError\<close> first, and that is what \<^verbatim>\<open>Run\<close> returns for a killed child: for
  \<^verbatim>\<open>kubectl get pods -w\<close> under the timeout of 30 seconds the call fails with
  ``exited with code -1'', not with ``command timed out after 30s''.
\<close>

theorem handleCommandExecution_deadline_reported_as_exit:
  "fst (handleCommandExecution (\<lambda>commandName commandArgs timeout. killed_at_deadline [] [])
      (example_request (AMap [(''arguments'', AString ''get pods -w'')]))
      ''kubectl'' (30 * Second))
    = (empty_CallToolResult, Some ''kubectl exited with code -1: '')
   \<and> snd (fst (handleCommandExecution
        (\<lambda>commandName commandArgs timeout. killed_at_deadline [] [])
        (example_request (AMap [(''arguments'', AString ''get pods -w'')]))
        ''kubectl'' (30 * Second)))
    \<noteq> Some (''kubectl command timed out after '' @ Duration_String (30 * Second))"
proof -
  have m: "assert_map (req_Arguments (example_request (AMap [(''arguments'', AString ''get pods -w'')])))
      = Some [(''arguments'', AString ''get pods -w'')]"
    by (simp add: example_request_def)
  have s: "assert_string (index_map [(''arguments'', AString ''get pods -w'')] ''arguments'')
      = Some ''get pods -w''"
    by (simp add: index_map_def)
  have "fst (handleCommandExecution (\<lambda>commandName commandArgs timeout. killed_at_deadline [] [])
      (example_request (AMap [(''arguments'', AString ''get pods -w'')]))
      ''kubectl'' (30 * Second))
    = (empty_CallToolResult, Some ''kubectl exited with code -1: '')"
    using handler_killed_at_deadline
      [where run = "\<lambda>commandName commandArgs timeout. killed_at_deadline [] []"
        and commandName = "''kubectl''" and timeout = "30 * Second"
        and out = "[]" and err = "[]", OF m s]
    by simp
  then show ?thesis
    by (simp add: Duration_String_30s)
qed

text \<open>
  C3. For each registered tool, a call whose payload is not a map, or whose map has no
  string under \<^verbatim>\<open>arguments\<close>, fails at once: with the error ``invalid arguments format''
  in the first case and ``missing or invalid <tool> argument'' in the second. Nothing is
  printed and no child process is run.
\<close>

theorem handleCommandExecution_invalid_arguments:
  assumes "(name, handler) \<in> set registered_tools"
    and "assert_map (req_Arguments request) = None
      \<or> (\<exists>args. assert_map (req_Arguments request) = Some args
            \<and> assert_string (index_map args ''arguments'') = None)"
  shows "handler run request =
      ((empty_CallToolResult,
        Some (if assert_map (req_Arguments request) = None then ''invalid arguments format''
              else ''missing or invalid '' @ name @ '' argument'')), [])
    \<and> runs_of (snd (handler run request)) = []"
proof -
  from assms(1) have h: "handler = (\<lambda>run req. handleCommandExecution run req name (30 * Second))"
    by (auto simp: registered_tools_def)
  from assms(2) show ?thesis
  proof
    assume "assert_map (req_Arguments request) = None"
    then show ?thesis by (simp add: h handler_invalid_format)
  next
    assume "\<exists>args. assert_map (req_Arguments request) = Some args
            \<and> assert_string (index_map args ''arguments'') = None"
    then obtain args where "assert_map (req_Arguments request) = Some args"
      and "assert_string (index_map args ''arguments'') = None" by blast
    then show ?thesis by (simp add: h handler_missing_argument)
  qed
qed

theorem handleCommandExecution_invalid_arguments_witness:
  "(''kubectl'', snd (registered_tools ! 1)) \<in> set registered_tools
   \<and> assert_map (req_Arguments (example_request (AString ''get pods''))) = None
   \<and> snd (registered_tools ! 1) (exits_with 0 ''ok'' []) (example_request (AString ''get pods''))
       = ((empty_CallToolResult, Some ''invalid arguments format''), [])
   \<and> assert_map (req_Arguments (example_request (AMap [(''args'', AString ''get pods'')])))
       = Some [(''args'', AString ''get pods'')]
   \<and> assert_string (index_map [(''args'', AString ''get pods'')] ''arguments'') = None
   \<and> snd (registered_tools ! 1) (exits_with 0 ''ok'' [])
         (example_request (AMap [(''args'', AString ''get pods'')]))
       = ((empty_CallToolResult, Some ''missing or invalid kubectl argument''), [])"
proof -
  have reg: "(''kubectl'', snd (registered_tools ! 1)) \<in> set registered_tools"
    by (simp add: registered_tools_def)
  have a: "assert_map (req_Arguments (example_request (AString ''get pods''))) = None"
    by (simp add: example_request_def)
  have b: "assert_map (req_Arguments (example_request (AMap [(''args'', AString ''get pods'')])))
       = Some [(''args'', AString ''get pods'')]"
    by (simp add: example_request_def)
  have c: "assert_string (index_map [(''args'', AString ''get pods'')] ''arguments'') = None"
    by (simp add: index_map_def)
  from handleCommandExecution_invalid_arguments
    [OF reg, of "example_request (AString ''get pods'')" "exits_with 0 ''ok'' []"] a
  have 1: "snd (registered_tools ! 1) (exits_with 0 ''ok'' [])
        (example_request (AString ''get pods''))
       = ((empty_CallToolResult, Some ''invalid arguments format''), [])"
    by simp
  from handleCommandExecution_invalid_arguments
    [OF reg, of "example_request (AMap [(''args'', AString ''get pods'')])"
      "exits_with 0 ''ok'' []"] b c
  have 2: "snd (registered_tools ! 1) (exits_with 0 ''ok'' [])
         (example_request (AMap [(''args'', AString ''get pods'')]))
       = ((empty_CallToolResult, Some ''missing or invalid kubectl argument''), [])"
    by simp
  from reg a b c 1 2 show ?thesis by blast
qed

text \<open>
  C4. When the command ends with status 0 (\<^verbatim>\<open>Run\<close> returns no error), the call succeeds
  with one text block: the captured standard output if there is any, and the fixed text
  ``Command executed successfully with no output'' otherwise.
\<close>

theorem handleCommandExecution_success:
  assumes "assert_map (req_Arguments request) = Some args"
    and "assert_string (index_map args ''arguments'') = Some cmdArgs"
    and "run commandName (Fields cmdArgs) timeout = out"
    and "run_err out = None"
  shows "fst (handleCommandExecution run request commandName timeout) =
      (NewToolResultText
         (if stdout out = [] then ''Command executed successfully with no output''
          else stdout out), None)"
  using assms by (simp add: handleCommandExecution_def Let_def)

theorem handleCommandExecution_success_witness:
  "fst (handleCommandExecution (exits_with 0 ''foo'' [])
      (example_request (AMap [(''arguments'', AString ''get pods'')])) ''kubectl'' (30 * Second))
    = (NewToolResultText ''foo'', None)
   \<and> fst (handleCommandExecution (exits_with 0 [] ''warning'')
      (example_request (AMap [(''arguments'', AString ''get pods'')])) ''kubectl'' (30 * Second))
    = (NewToolResultText ''Command executed successfully with no output'', None)"
proof -
  have m: "assert_map (req_Arguments (example_request (AMap [(''arguments'', AString ''get pods'')])))
      = Some [(''arguments'', AString ''get pods'')]"
    by (simp add: example_request_def)
  have s: "assert_string (index_map [(''arguments'', AString ''get pods'')] ''arguments'')
      = Some ''get pods''"
    by (simp add: index_map_def)
  have 1: "fst (handleCommandExecution (exits_with 0 ''foo'' [])
      (example_request (AMap [(''arguments'', AString ''get pods'')])) ''kubectl'' (30 * Second))
    = (NewToolResultText ''foo'', None)"
    using handleCommandExecution_success [OF m s, of "exits_with 0 ''foo'' []" "''kubectl''"
        "30 * Second" "exits_with 0 ''foo'' [] ''kubectl'' (Fields ''get pods'') (30 * Second)"]
    by (simp add: exits_with_def)
  have 2: "fst (handleCommandExecution (exits_with 0 [] ''warning'')
      (example_request (AMap [(''arguments'', AString ''get pods'')])) ''kubectl'' (30 * Second))
    = (NewToolResultText ''Command executed successfully with no output'', None)"
    using handleCommandExecution_success [OF m s, of "exits_with 0 [] ''warning''" "''kubectl''"
        "30 * Second" "exits_with 0 [] ''warning'' ''kubectl'' (Fields ''get pods'') (30 * Second)"]
    by (simp add: exits_with_def)
  from 1 2 show ?thesis by blast
qed

text \<open>
  C8. When the command ends with a non-zero status (\<^verbatim>\<open>Run\<close> returns an \<^verbatim>\<open>*exec.ExitError\<close>
  with exit code \<open>code\<close>), the call fails with the message
  ``<command> exited with code <code>: <stderr>'', and the command was run exactly once.
\<close>

theorem handleCommandExecution_nonzero_exit:
  assumes "assert_map (req_Arguments request) = Some args"
    and "assert_string (index_map args ''arguments'') = Some cmdArgs"
    and "run commandName (Fields cmdArgs) timeout = out"
    and "run_err out = Some (ExitError code)"
  shows "fst (handleCommandExecution run request commandName timeout) =
      (empty_CallToolResult,
       Some (commandName @ '' exited with code '' @ fmt_d code @ '': '' @ stderr out))
    \<and> runs_of (snd (handleCommandExecution run request commandName timeout))
        = [(commandName, Fields cmdArgs, timeout)]"
  using assms by (simp add: handleCommandExecution_def Let_def)

theorem handleCommandExecution_nonzero_exit_witness:
  "fst (handleCommandExecution (exits_with 2 [] ''bad flag'')
      (example_request (AMap [(''arguments'', AString ''get pods'')])) ''kubectl'' (30 * Second))
    = (empty_CallToolResult, Some ''kubectl exited with code 2: bad flag'')
   \<and> runs_of (snd (handleCommandExecution (exits_with 2 [] ''bad flag'')
      (example_request (AMap [(''arguments'', AString ''get pods'')])) ''kubectl'' (30 * Second)))
    = [(''kubectl'', [''get'', ''pods''], 30 * Second)]"
proof -
  have m: "assert_map (req_Arguments (example_request (AMap [(''arguments'', AString ''get pods'')])))
      = Some [(''arguments'', AString ''get pods'')]"
    by (simp add: example_request_def)
  have s: "assert_string (index_map [(''arguments'', AString ''get pods'')] ''arguments'')
      = Some ''get pods''"
    by (simp add: index_map_def)
  have f: "Fields ''get pods'' = [''get'', ''pods'']"
    by (simp add: Fields_eval)
  have d: "fmt_d 2 = ''2''"
    by (simp add: fmt_eval)
  show ?thesis
    using handleCommandExecution_nonzero_exit [OF m s, of "exits_with 2 [] ''bad flag''"
        "''kubectl''" "30 * Second"
        "exits_with 2 [] ''bad flag'' ''kubectl'' (Fields ''get pods'') (30 * Second)" 2]
    by (simp add: exits_with_def f d)
qed

section \<open>The client: one pass of the loop\<close>

lemma asked_append: "asked (xs @ ys) = asked xs + asked ys"
  by (induction xs rule: asked.induct) simp_all

lemma invoked_append: "invoked (xs @ ys) = invoked xs + invoked ys"
  by (induction xs rule: invoked.induct) simp_all

lemma printed_append: "printed (xs @ ys) = printed xs @ printed ys"
  by (induction xs rule: printed.induct) simp_all


lemmas state_defs = printf_def sleep_def append_message_def

lemma loop_stop:
  "\<not> iteration < maxIterations \<Longrightarrow>
   runPrompt_loop env tools maxIterations iteration st =
     (ReturnNil, printf (exhausted_line maxIterations) st)"
  by (subst runPrompt_loop.simps) (simp add: exhausted_line_def)

lemma loop_oracle_error:
  "iteration < maxIterations \<Longrightarrow>
   Completions_New env (Messages st) tools (world st) = (Inl err, w) \<Longrightarrow>
   runPrompt_loop env tools maxIterations iteration st =
     (ReturnError (''failed to create chat completion: '' @ err),
      st\<lparr>world := w, trace := trace st @ [Asked (Messages st)]\<rparr>)"
  by (subst runPrompt_loop.simps) simp


lemma loop_final_text:
  "iteration < maxIterations \<Longrightarrow>
   Completions_New env (Messages st) tools (world st) = (Inr (choice # others), w) \<Longrightarrow>
   Message_Content choice \<noteq> [] \<Longrightarrow>
   runPrompt_loop env tools maxIterations iteration st =
     (ReturnNil,
      st\<lparr>world := w,
         trace := trace st @
           [Asked (Messages st),
            Print (''\<newline>Got LLM response: '' @ Message_Content choice
                    @ ''\<newline>Task completed after '' @ fmt_d (iteration - 1)
                    @ '' iterations\<newline>'')]\<rparr>)"
  by (subst runPrompt_loop.simps) (simp add: printf_def)

lemma loop_no_tool_calls:
  "iteration < maxIterations \<Longrightarrow>
   Completions_New env (Messages st) tools (world st) = (Inr (choice # others), w) \<Longrightarrow>
   Message_Content choice = [] \<Longrightarrow> Message_ToolCalls choice = [] \<Longrightarrow>
   runPrompt_loop env tools maxIterations iteration st =
     (ReturnNil,
      st\<lparr>world := w,
         trace := trace st @
           [Asked (Messages st),
            Print (''\<newline>No more tool calls, task completed after ''
                    @ fmt_d (iteration - 1) @ '' iterations\<newline>'')]\<rparr>)"
  by (subst runPrompt_loop.simps) (simp add: printf_def)

text \<open>A response with tool calls and no text: the calls are dispatched in order, and the
  loop goes on with the next value of the counter, whatever the calls did.\<close>

lemma loop_round:
  "iteration < maxIterations \<Longrightarrow>
   Completions_New env (Messages st) tools (world st) = (Inr (choice # others), w) \<Longrightarrow>
   Message_Content choice = [] \<Longrightarrow> Message_ToolCalls choice \<noteq> [] \<Longrightarrow>
   runPrompt_loop env tools maxIterations iteration st =
     runPrompt_loop env tools maxIterations (iteration + 1)
       (foldl (toolCall_body env iteration)
          (st\<lparr>world := w,
              trace := trace st @ [Asked (Messages st), Print ''checking for tool calls\<newline>'']\<rparr>)
          (Message_ToolCalls choice))"
  by (subst runPrompt_loop.simps) (simp add: printf_def)

lemma runPrompt_is_loop:
  "runPrompt question listTools env w =
    runPrompt_loop env
      (map (\<lambda>tool. \<lparr>fn_Name = tool_Name tool, fn_Description = tool_Description tool\<rparr>) listTools)
      5 1 \<lparr>Messages = initial_Messages question, world = w, trace = []\<rparr>"
  by (simp add: runPrompt_def)

subsection \<open>One tool call\<close>


lemma body_empty_content:
  assumes "json_Unmarshal env (Function_Arguments toolCall) = Inr args"
    and "mcp_CallTool env (30 * Second)
           \<lparr>req_Name = Function_Name toolCall, req_Arguments = AMap args\<rparr> (world st)
         = ((Some toolResult, None), w)"
    and "Content toolResult = []"
  shows "toolCall_body env iteration st toolCall =
    st\<lparr>world := w,
       trace := trace st @
          [Print (''Iteration '' @ fmt_d iteration @ '' - Tool call: ''
                   @ Function_Name toolCall @ ''\<newline>''),
           Print (''Tool call arguments: '' @ Function_Arguments toolCall @ ''\<newline>''),
           Invoked \<lparr>req_Name = Function_Name toolCall, req_Arguments = AMap args\<rparr>]\<rparr>"
  using assms by (simp add: toolCall_body_def state_defs)

lemma body_asked: "asked (trace (toolCall_body env iteration st toolCall)) = asked (trace st)"
  by (simp add: toolCall_body_def state_defs asked_append Let_def
      split: sum.split prod.split option.split)

lemma body_invoked:
  "invoked (trace (toolCall_body env iteration st toolCall)) \<le> Suc (invoked (trace st))"
  by (simp add: toolCall_body_def state_defs invoked_append Let_def
      split: sum.split prod.split option.split)

lemma foldl_body_asked:
  "asked (trace (foldl (toolCall_body env iteration) st tcs)) = asked (trace st)"
  by (induction tcs arbitrary: st) (simp_all add: body_asked)

lemma foldl_body_invoked:
  "invoked (trace (foldl (toolCall_body env iteration) st tcs))
    \<le> invoked (trace st) + length tcs"
proof (induction tcs arbitrary: st)
  case Nil
  then show ?case by simp
next
  case (Cons tc tcs)
  have "invoked (trace (foldl (toolCall_body env iteration) st (tc # tcs)))
      \<le> invoked (trace (toolCall_body env iteration st tc)) + length tcs"
    using Cons.IH by simp
  also have "\<dots> \<le> Suc (invoked (trace st)) + length tcs"
    using body_invoked [of env iteration st tc] by simp
  finally show ?case by simp
qed

section \<open>The client: whole runs\<close>

text \<open>Against an oracle that asks for tool calls in every response and never answers, each
  pass of the loop makes one request and adds one to the counter, until the counter reaches
  the maximum.\<close>

lemma loop_always_tool_calls:
  assumes always: "\<forall>msgs w. \<exists>choice others w'.
      Completions_New env msgs tools w = (Inr (choice # others), w')
      \<and> Message_Content choice = [] \<and> Message_ToolCalls choice \<noteq> []"
  shows "\<exists>st'. runPrompt_loop env tools mx it st = (ReturnNil, printf (exhausted_line mx) st')
    \<and> asked (trace st') = asked (trace st) + nat (mx - it)
    \<and> ((\<forall>msgs w choice others w'.
            Completions_New env msgs tools w = (Inr (choice # others), w')
            \<longrightarrow> length (Message_ToolCalls choice) = 1)
         \<longrightarrow> invoked (trace st') \<le> invoked (trace st) + nat (mx - it))"
proof (induction "nat (mx - it)" arbitrary: it st)
  case 0
  then have "\<not> it < mx" by simp
  then have "runPrompt_loop env tools mx it st = (ReturnNil, printf (exhausted_line mx) st)"
    by (simp add: loop_stop)
  with 0 show ?case by auto
next
  case (Suc n)
  then have lt: "it < mx" and n: "n = nat (mx - (it + 1))" by simp_all
  from always obtain choice others w' where
    c: "Completions_New env (Messages st) tools (world st) = (Inr (choice # others), w')"
    and silent: "Message_Content choice = []" and tcs: "Message_ToolCalls choice \<noteq> []"
    by blast
  define st3 where "st3 = foldl (toolCall_body env it)
          (st\<lparr>world := w',
              trace := trace st @ [Asked (Messages st), Print ''checking for tool calls\<newline>'']\<rparr>)
          (Message_ToolCalls choice)"
  have step: "runPrompt_loop env tools mx it st = runPrompt_loop env tools mx (it + 1) st3"
    unfolding st3_def by (rule loop_round [OF lt c silent tcs])
  have a3: "asked (trace st3) = Suc (asked (trace st))"
    by (simp add: st3_def foldl_body_asked asked_append)
  have i3: "invoked (trace st3) \<le> invoked (trace st) + length (Message_ToolCalls choice)"
    unfolding st3_def
    using foldl_body_invoked [of env it
        "st\<lparr>world := w',
            trace := trace st @ [Asked (Messages st), Print ''checking for tool calls\<newline>'']\<rparr>"
        "Message_ToolCalls choice"]
    by (simp add: invoked_append)
  from Suc.hyps(1) [OF n, of st3] obtain st' where
    r: "runPrompt_loop env tools mx (it + 1) st3 = (ReturnNil, printf (exhausted_line mx) st')"
    and a: "asked (trace st') = asked (trace st3) + nat (mx - (it + 1))"
    and i: "(\<forall>msgs w choice others w'.
            Completions_New env msgs tools w = (Inr (choice # others), w')
            \<longrightarrow> length (Message_ToolCalls choice) = 1)
         \<longrightarrow> invoked (trace st') \<le> invoked (trace st3) + nat (mx - (it + 1))"
    by blast
  have rounds: "nat (mx - it) = Suc (nat (mx - (it + 1)))"
    using lt by simp
  have A: "asked (trace st') = asked (trace st) + nat (mx - it)"
    using a a3 rounds by simp
  have I: "(\<forall>msgs w choice others w'.
            Completions_New env msgs tools w = (Inr (choice # others), w')
            \<longrightarrow> length (Message_ToolCalls choice) = 1)
         \<longrightarrow> invoked (trace st') \<le> invoked (trace st) + nat (mx - it)"
  proof
    assume one: "\<forall>msgs w choice others w'.
            Completions_New env msgs tools w = (Inr (choice # others), w')
            \<longrightarrow> length (Message_ToolCalls choice) = 1"
    with c have "length (Message_ToolCalls choice) = 1" by blast
    with i3 have "invoked (trace st3) \<le> Suc (invoked (trace st))" by simp
    moreover from i one have "invoked (trace st') \<le> invoked (trace st3) + nat (mx - (it + 1))"
      by blast
    ultimately show "invoked (trace st') \<le> invoked (trace st) + nat (mx - it)"
      using rounds by simp
  qed
  from step r have "runPrompt_loop env tools mx it st = (ReturnNil, printf (exhausted_line mx) st')"
    by simp
  with A I show ?case by blast
qed


subsection \<open>What a run adds to the trace and to the conversation\<close>







section \<open>The client: the claims about \<^const>\<open>runPrompt\<close>\<close>

text \<open>
  C2, as stated: against an oracle that asks for a tool call in every response and never
  answers, \<^verbatim>\<open>runPrompt\<close> ends after exactly the maximum number of rounds, 5. It does not:
  the counter starts at 1 and the loop runs while it is below 5, so the oracle is asked
  4 times.
\<close>

theorem runPrompt_rounds_counterexample:
  "asked (trace (snd (runPrompt ''are my pods healthy?'' []
      (example_env tool_call_oracle failing_tool) ()))) = 4
   \<and> asked (trace (snd (runPrompt ''are my pods healthy?'' []
      (example_env tool_call_oracle failing_tool) ()))) \<noteq> 5"
proof -
  have "\<forall>msgs w. \<exists>choice others w'.
      Completions_New (example_env tool_call_oracle failing_tool) msgs [] w
        = (Inr (choice # others), w')
      \<and> Message_Content choice = [] \<and> Message_ToolCalls choice \<noteq> []"
    by (simp add: example_env_def tool_call_oracle_def)
  from loop_always_tool_calls [OF this, of 5 1
      "\<lparr>Messages = initial_Messages ''are my pods healthy?'', world = (), trace = []\<rparr>"]
  show ?thesis
    by (auto simp: runPrompt_is_loop printf_def asked_append)
qed

text \<open>
  C2, amended: against an oracle that asks for at least one tool call in every response and
  never answers, the loop started with the counter at 1 (as \<^verbatim>\<open>runPrompt\<close> starts it, with the
  maximum 5) returns no error after exactly maximum - 1 requests to the oracle, its last
  printed line reporting that the maximum was reached; when every response carries one
  tool call, the tool is invoked at most maximum - 1 times.
\<close>

theorem runPrompt_loop_exhausts:
  assumes "\<forall>msgs w. \<exists>choice others w'.
      Completions_New env msgs tools w = (Inr (choice # others), w')
      \<and> Message_Content choice = [] \<and> Message_ToolCalls choice \<noteq> []"
  shows "fst (runPrompt_loop env tools maxIterations 1 st) = ReturnNil
    \<and> asked (trace (snd (runPrompt_loop env tools maxIterations 1 st)))
        = asked (trace st) + nat (maxIterations - 1)
    \<and> last (printed (trace (snd (runPrompt_loop env tools maxIterations 1 st))))
        = exhausted_line maxIterations
    \<and> ((\<forall>msgs w choice others w'.
            Completions_New env msgs tools w = (Inr (choice # others), w')
            \<longrightarrow> length (Message_ToolCalls choice) = 1)
         \<longrightarrow> invoked (trace (snd (runPrompt_loop env tools maxIterations 1 st)))
               \<le> invoked (trace st) + nat (maxIterations - 1))"
proof -
  from loop_always_tool_calls [OF assms, of maxIterations 1 st] obtain st' where
    r: "runPrompt_loop env tools maxIterations 1 st
          = (ReturnNil, printf (exhausted_line maxIterations) st')"
    and a: "asked (trace st') = asked (trace st) + nat (maxIterations - 1)"
    and i: "(\<forall>msgs w choice others w'.
            Completions_New env msgs tools w = (Inr (choice # others), w')
            \<longrightarrow> length (Message_ToolCalls choice) = 1)
         \<longrightarrow> invoked (trace st') \<le> invoked (trace st) + nat (maxIterations - 1)"
    by blast
  have "asked (trace (printf (exhausted_line maxIterations) st')) = asked (trace st')"
    and "invoked (trace (printf (exhausted_line maxIterations) st')) = invoked (trace st')"
    and "last (printed (trace (printf (exhausted_line maxIterations) st')))
          = exhausted_line maxIterations"
    by (simp_all add: printf_def asked_append invoked_append printed_append)
  with r a i show ?thesis by simp
qed

theorem runPrompt_loop_exhausts_witness:
  "(\<forall>msgs w. \<exists>choice others w'.
      Completions_New (example_env tool_call_oracle failing_tool) msgs [] w
        = (Inr (choice # others), w')
      \<and> Message_Content choice = [] \<and> length (Message_ToolCalls choice) = 1)
   \<and> fst (runPrompt ''are my pods healthy?'' []
        (example_env tool_call_oracle failing_tool) ()) = ReturnNil
   \<and> asked (trace (snd (runPrompt ''are my pods healthy?'' []
        (example_env tool_call_oracle failing_tool) ()))) = 4
   \<and> last (printed (trace (snd (runPrompt ''are my pods healthy?'' []
        (example_env tool_call_oracle failing_tool) ()))))
      = ''\<newline>Reached maximum iterations (5) without completing the task\<newline>''
   \<and> invoked (trace (snd (runPrompt ''are my pods healthy?'' []
        (example_env tool_call_oracle failing_tool) ()))) \<le> 4"
proof -
  have one: "\<forall>msgs w. \<exists>choice others w'.
      Completions_New (example_env tool_call_oracle failing_tool) msgs [] w
        = (Inr (choice # others), w')
      \<and> Message_Content choice = [] \<and> length (Message_ToolCalls choice) = 1"
    by (simp add: example_env_def tool_call_oracle_def)
  have always: "\<forall>msgs w. \<exists>choice others w'.
      Completions_New (example_env tool_call_oracle failing_tool) msgs [] w
        = (Inr (choice # others), w')
      \<and> Message_Content choice = [] \<and> Message_ToolCalls choice \<noteq> []"
    by (simp add: example_env_def tool_call_oracle_def)
  have single: "\<forall>msgs w choice others w'.
      Completions_New (example_env tool_call_oracle failing_tool) msgs [] w
        = (Inr (choice # others), w')
      \<longrightarrow> length (Message_ToolCalls choice) = 1"
    by (auto simp: example_env_def tool_call_oracle_def)
  have line: "exhausted_line 5
      = ''\<newline>Reached maximum iterations (5) without completing the task\<newline>''"
    by (simp add: exhausted_line_def fmt_eval)
  from runPrompt_loop_exhausts [OF always, of 5
      "\<lparr>Messages = initial_Messages ''are my pods healthy?'', world = (), trace = []\<rparr>"]
    single
  have "fst (runPrompt ''are my pods healthy?'' []
        (example_env tool_call_oracle failing_tool) ()) = ReturnNil
   \<and> asked (trace (snd (runPrompt ''are my pods healthy?'' []
        (example_env tool_call_oracle failing_tool) ()))) = 4
   \<and> last (printed (trace (snd (runPrompt ''are my pods healthy?'' []
        (example_env tool_call_oracle failing_tool) ()))))
      = ''\<newline>Reached maximum iterations (5) without completing the task\<newline>''
   \<and> invoked (trace (snd (runPrompt ''are my pods healthy?'' []
        (example_env tool_call_oracle failing_tool) ()))) \<le> 4"
    by (simp add: runPrompt_is_loop line)
  with one show ?thesis by blast
qed

text \<open>
  C5. When the response of the oracle carries text, the loop prints the text and returns no
  error in that same pass, whether or not the response also carries tool calls: no tool is
  invoked, no message is appended, and the oracle is not asked again. At the first pass
  this is one request in all.
\<close>

theorem runPrompt_final_text:
  assumes "iteration < maxIterations"
    and "Completions_New env (Messages st) tools (world st) = (Inr (choice # others), w)"
    and "Message_Content choice \<noteq> []"
  shows "runPrompt_loop env tools maxIterations iteration st =
     (ReturnNil,
      st\<lparr>world := w,
         trace := trace st @
           [Asked (Messages st),
            Print (''\<newline>Got LLM response: '' @ Message_Content choice
                    @ ''\<newline>Task completed after '' @ fmt_d (iteration - 1)
                    @ '' iterations\<newline>'')]\<rparr>)
    \<and> invoked (trace (snd (runPrompt_loop env tools maxIterations iteration st)))
        = invoked (trace st)
    \<and> asked (trace (snd (runPrompt_loop env tools maxIterations iteration st)))
        = Suc (asked (trace st))
    \<and> Messages (snd (runPrompt_loop env tools maxIterations iteration st)) = Messages st"
  using loop_final_text [OF assms] by (simp add: invoked_append asked_append)

theorem runPrompt_final_text_witness:
  "(1::int) < 5
   \<and> Completions_New (example_env text_and_tool_oracle failing_tool)
        (initial_Messages ''are my pods healthy?'') [] ()
      = (Inr [\<lparr>Message_Content = ''2 pods running'', Message_ToolCalls = [example_toolCall]\<rparr>], ())
   \<and> runPrompt ''are my pods healthy?'' [] (example_env text_and_tool_oracle failing_tool) ()
      = (ReturnNil,
         \<lparr>Messages = initial_Messages ''are my pods healthy?'', world = (),
          trace = [Asked (initial_Messages ''are my pods healthy?''),
                   Print ''\<newline>Got LLM response: 2 pods running\<newline>Task completed after 0 iterations\<newline>'']\<rparr>)
   \<and> invoked (trace (snd (runPrompt ''are my pods healthy?'' []
        (example_env text_and_tool_oracle failing_tool) ()))) = 0
   \<and> asked (trace (snd (runPrompt ''are my pods healthy?'' []
        (example_env text_and_tool_oracle failing_tool) ()))) = 1"
proof -
  have lt: "(1::int) < 5" by simp
  have c: "Completions_New (example_env text_and_tool_oracle failing_tool)
        (Messages \<lparr>Messages = initial_Messages ''are my pods healthy?'', world = (), trace = []\<rparr>)
        [] (world \<lparr>Messages = initial_Messages ''are my pods healthy?'', world = (), trace = []\<rparr>)
      = (Inr (\<lparr>Message_Content = ''2 pods running'', Message_ToolCalls = [example_toolCall]\<rparr> # []),
         ())"
    by (simp add: example_env_def text_and_tool_oracle_def)
  have t: "Message_Content
      \<lparr>Message_Content = ''2 pods running'', Message_ToolCalls = [example_toolCall]\<rparr> \<noteq> []"
    by simp
  have z: "fmt_d 0 = ''0''"
    by (simp add: fmt_eval)
  from runPrompt_final_text [OF lt c t] c lt show ?thesis
    by (simp add: runPrompt_is_loop z)
qed

text \<open>
  C6, as stated: when the response carries neither text nor tool calls, \<^verbatim>\<open>runPrompt\<close> ends
  with no further output. It prints a line.
\<close>

theorem runPrompt_no_tool_calls_counterexample:
  "printed (trace (snd (runPrompt ''are my pods healthy?'' []
      (example_env silent_oracle failing_tool) ())))
    = [''\<newline>No more tool calls, task completed after 0 iterations\<newline>'']
   \<and> printed (trace (snd (runPrompt ''are my pods healthy?'' []
      (example_env silent_oracle failing_tool) ()))) \<noteq> []"
proof -
  have "Completions_New (example_env silent_oracle failing_tool)
        (Messages \<lparr>Messages = initial_Messages ''are my pods healthy?'', world = (), trace = []\<rparr>)
        [] (world \<lparr>Messages = initial_Messages ''are my pods healthy?'', world = (), trace = []\<rparr>)
      = (Inr (\<lparr>Message_Content = [], Message_ToolCalls = []\<rparr> # []), ())"
    by (simp add: example_env_def silent_oracle_def)
  from loop_no_tool_calls [OF _ this, of 1 5] show ?thesis
    by (simp add: runPrompt_is_loop fmt_eval)
qed

text \<open>
  C6, amended: when the response carries neither text nor tool calls, the loop returns no
  error in that same pass; no tool is invoked and no message is appended, and the only
  output is the line ``No more tool calls, task completed after <counter - 1> iterations''.
\<close>

theorem runPrompt_no_tool_calls:
  assumes "iteration < maxIterations"
    and "Completions_New env (Messages st) tools (world st) = (Inr (choice # others), w)"
    and "Message_Content choice = []"
    and "Message_ToolCalls choice = []"
  shows "runPrompt_loop env tools maxIterations iteration st =
     (ReturnNil,
      st\<lparr>world := w,
         trace := trace st @
           [Asked (Messages st),
            Print (''\<newline>No more tool calls, task completed after ''
                    @ fmt_d (iteration - 1) @ '' iterations\<newline>'')]\<rparr>)
    \<and> invoked (trace (snd (runPrompt_loop env tools maxIterations iteration st)))
        = invoked (trace st)
    \<and> Messages (snd (runPrompt_loop env tools maxIterations iteration st)) = Messages st"
  using loop_no_tool_calls [OF assms] by (simp add: invoked_append)

theorem runPrompt_no_tool_calls_witness:
  "(1::int) < 5
   \<and> Completions_New (example_env silent_oracle failing_tool)
        (initial_Messages ''are my pods healthy?'') [] ()
      = (Inr [\<lparr>Message_Content = [], Message_ToolCalls = []\<rparr>], ())
   \<and> runPrompt ''are my pods healthy?'' [] (example_env silent_oracle failing_tool) ()
      = (ReturnNil,
         \<lparr>Messages = initial_Messages ''are my pods healthy?'', world = (),
          trace = [Asked (initial_Messages ''are my pods healthy?''),
                   Print ''\<newline>No more tool calls, task completed after 0 iterations\<newline>'']\<rparr>)
   \<and> invoked (trace (snd (runPrompt ''are my pods healthy?'' []
        (example_env silent_oracle failing_tool) ()))) = 0"
proof -
  have lt: "(1::int) < 5" by simp
  have c: "Completions_New (example_env silent_oracle failing_tool)
        (Messages \<lparr>Messages = initial_Messages ''are my pods healthy?'', world = (), trace = []\<rparr>)
        [] (world \<lparr>Messages = initial_Messages ''are my pods healthy?'', world = (), trace = []\<rparr>)
      = (Inr (\<lparr>Message_Content = [], Message_ToolCalls = []\<rparr> # []), ())"
    by (simp add: example_env_def silent_oracle_def)
  have z: "fmt_d 0 = ''0''"
    by (simp add: fmt_eval)
  from runPrompt_no_tool_calls [OF lt c] c lt show ?thesis
    by (simp add: runPrompt_is_loop z)
qed



text \<open>
  C10. When the invocation of a tool succeeds and its result has no content, the messages of
  the conversation are the same after the tool call as before it.
\<close>

theorem runPrompt_empty_tool_result:
  assumes "json_Unmarshal env (Function_Arguments toolCall) = Inr args"
    and "mcp_CallTool env (30 * Second)
           \<lparr>req_Name = Function_Name toolCall, req_Arguments = AMap args\<rparr> (world st)
         = ((Some toolResult, None), w)"
    and "Content toolResult = []"
  shows "Messages (toolCall_body env iteration st toolCall) = Messages st"
  using body_empty_content [OF assms, of iteration] by simp

theorem runPrompt_empty_tool_result_witness:
  "json_Unmarshal (example_env tool_call_oracle empty_tool) (Function_Arguments example_toolCall)
      = Inr [(''arguments'', AString ''get pods'')]
   \<and> mcp_CallTool (example_env tool_call_oracle empty_tool) (30 * Second)
        \<lparr>req_Name = ''kubectl'', req_Arguments = AMap [(''arguments'', AString ''get pods'')]\<rparr> ()
      = ((Some empty_CallToolResult, None), ())
   \<and> Content empty_CallToolResult = []
   \<and> Messages (toolCall_body (example_env tool_call_oracle empty_tool) 1 example_state
        example_toolCall)
      = initial_Messages ''are my pods healthy?''"
proof -
  have j: "json_Unmarshal (example_env tool_call_oracle empty_tool)
      (Function_Arguments example_toolCall) = Inr [(''arguments'', AString ''get pods'')]"
    by (simp add: example_env_def example_Unmarshal_def example_toolCall_def)
  have n: "Function_Name example_toolCall = ''kubectl''"
    by (simp add: example_toolCall_def)
  have c: "mcp_CallTool (example_env tool_call_oracle empty_tool) (30 * Second)
        \<lparr>req_Name = Function_Name example_toolCall,
          req_Arguments = AMap [(''arguments'', AString ''get pods'')]\<rparr> (world example_state)
      = ((Some empty_CallToolResult, None), ())"
    by (simp add: example_env_def empty_tool_def)
  have e: "Content empty_CallToolResult = []"
    by (simp add: empty_CallToolResult_def)
  from runPrompt_empty_tool_result [OF j c e, of 1]
  have "Messages (toolCall_body (example_env tool_call_oracle empty_tool) 1 example_state
        example_toolCall) = initial_Messages ''are my pods healthy?''"
    by (simp add: example_state_def)
  with j c n e show ?thesis by simp
qed

section \<open>Further properties of the two programs\<close>

text \<open>
  The timeout message of the handler is reached when \<^verbatim>\<open>Run\<close> returns an error that is not an
  \<^verbatim>\<open>*exec.ExitError\<close> while the deadline of the context has passed; the message carries the
  duration as \<^verbatim>\<open>%v\<close> prints it, ``30s'' for the registered tools.
\<close>

theorem handleCommandExecution_timeout_branch:
  assumes "assert_map (req_Arguments request) = Some args"
    and "assert_string (index_map args ''arguments'') = Some cmdArgs"
    and "run commandName (Fields cmdArgs) timeout = out"
    and "run_err out = Some (OtherError e)"
    and "ctx_Err out = Some DeadlineExceeded"
  shows "fst (handleCommandExecution run request commandName timeout) =
      (empty_CallToolResult,
       Some (commandName @ '' command timed out after '' @ Duration_String timeout))"
  using assms by (simp add: handleCommandExecution_def Let_def)

theorem handleCommandExecution_timeout_branch_witness:
  "fst (handleCommandExecution
      (fails_with ''context deadline exceeded'' (Some DeadlineExceeded))
      (example_request (AMap [(''arguments'', AString ''get pods'')])) ''kubectl'' (30 * Second))
    = (empty_CallToolResult, Some ''kubectl command timed out after 30s'')"
proof -
  have m: "assert_map (req_Arguments (example_request (AMap [(''arguments'', AString ''get pods'')])))
      = Some [(''arguments'', AString ''get pods'')]"
    by (simp add: example_request_def)
  have s: "assert_string (index_map [(''arguments'', AString ''get pods'')] ''arguments'')
      = Some ''get pods''"
    by (simp add: index_map_def)
  show ?thesis
    using handleCommandExecution_timeout_branch
      [where run = "fails_with ''context deadline exceeded'' (Some DeadlineExceeded)"
        and commandName = "''kubectl''" and timeout = "30 * Second"
        and e = "''context deadline exceeded''"
        and out = "fails_with ''context deadline exceeded'' (Some DeadlineExceeded)
                     ''kubectl'' (Fields ''get pods'') (30 * Second)", OF m s]
    by (simp add: fails_with_def Duration_String_30s)
qed

text \<open>
  Any other error of \<^verbatim>\<open>Run\<close> (the command cannot be started, say) fails the call with
  ``<command> execution failed: <error>'', a line break and ``stderr: <stderr>''.
\<close>

theorem handleCommandExecution_execution_failure:
  assumes "assert_map (req_Arguments request) = Some args"
    and "assert_string (index_map args ''arguments'') = Some cmdArgs"
    and "run commandName (Fields cmdArgs) timeout = out"
    and "run_err out = Some (OtherError e)"
    and "ctx_Err out \<noteq> Some DeadlineExceeded"
  shows "fst (handleCommandExecution run request commandName timeout) =
      (empty_CallToolResult,
       Some (commandName @ '' execution failed: '' @ e @ ''\<newline>stderr: '' @ stderr out))"
  using assms by (simp add: handleCommandExecution_def Let_def)

theorem handleCommandExecution_execution_failure_witness:
  "fst (handleCommandExecution (fails_with ''exec: not found'' None)
      (example_request (AMap [(''arguments'', AString ''get pods'')])) ''kubectl'' (30 * Second))
    = (empty_CallToolResult, Some ''kubectl execution failed: exec: not found\<newline>stderr: '')"
proof -
  have m: "assert_map (req_Arguments (example_request (AMap [(''arguments'', AString ''get pods'')])))
      = Some [(''arguments'', AString ''get pods'')]"
    by (simp add: example_request_def)
  have s: "assert_string (index_map [(''arguments'', AString ''get pods'')] ''arguments'')
      = Some ''get pods''"
    by (simp add: index_map_def)
  show ?thesis
    using handleCommandExecution_execution_failure
      [where run = "fails_with ''exec: not found'' None"
        and commandName = "''kubectl''" and timeout = "30 * Second"
        and e = "''exec: not found''"
        and out = "fails_with ''exec: not found'' None
                     ''kubectl'' (Fields ''get pods'') (30 * Second)", OF m s]
    by (simp add: fails_with_def)
qed

text \<open>
  When the arguments of a tool call are not valid JSON for a map, the loop appends one
  system message with the parse error and does not invoke the tool.
\<close>

theorem runPrompt_parse_failure:
  assumes "json_Unmarshal env (Function_Arguments toolCall) = Inl err"
  shows "toolCall_body env iteration st toolCall =
    st\<lparr>Messages := Messages st @
          [\<lparr>msg_Role = ''system'',
            msg_Content = ''Error parsing tool arguments: '' @ err
              @ ''. Please try again with valid JSON.''\<rparr>],
       trace := trace st @
          [Print (''Iteration '' @ fmt_d iteration @ '' - Tool call: ''
                   @ Function_Name toolCall @ ''\<newline>''),
           Print (''Tool call arguments: '' @ Function_Arguments toolCall @ ''\<newline>'')]\<rparr>
    \<and> invoked (trace (toolCall_body env iteration st toolCall)) = invoked (trace st)"
  using assms by (simp add: toolCall_body_def state_defs invoked_append)

theorem runPrompt_parse_failure_witness:
  "json_Unmarshal (example_env tool_call_oracle failing_tool) ''get pods'' = Inl ''invalid character''
   \<and> Messages (toolCall_body (example_env tool_call_oracle failing_tool) 1 example_state
        \<lparr>Function_Name = ''kubectl'', Function_Arguments = ''get pods''\<rparr>)
      = initial_Messages ''are my pods healthy?'' @
          [\<lparr>msg_Role = ''system'',
            msg_Content = ''Error parsing tool arguments: invalid character. Please try again with valid JSON.''\<rparr>]
   \<and> invoked (trace (toolCall_body (example_env tool_call_oracle failing_tool) 1 example_state
        \<lparr>Function_Name = ''kubectl'', Function_Arguments = ''get pods''\<rparr>)) = 0"
proof -
  have j: "json_Unmarshal (example_env tool_call_oracle failing_tool)
      (Function_Arguments \<lparr>Function_Name = ''kubectl'', Function_Arguments = ''get pods''\<rparr>)
    = Inl ''invalid character''"
    by (simp add: example_env_def example_Unmarshal_def)
  from runPrompt_parse_failure [OF j, of 1 example_state] j show ?thesis
    by (simp add: example_state_def)
qed

text \<open>
  When the invocation of a tool succeeds with content, the loop appends the content as an
  assistant message and, after it, the system message that asks the oracle to return what
  it has obtained.
\<close>

theorem runPrompt_tool_result:
  assumes "json_Unmarshal env (Function_Arguments toolCall) = Inr args"
    and "mcp_CallTool env (30 * Second)
           \<lparr>req_Name = Function_Name toolCall, req_Arguments = AMap args\<rparr> (world st)
         = ((Some toolResult, None), w)"
    and "Content toolResult \<noteq> []"
  shows "Messages (toolCall_body env iteration st toolCall) =
    Messages st @
      [\<lparr>msg_Role = ''assistant'', msg_Content = fmt_v env (Content toolResult)\<rparr>,
       \<lparr>msg_Role = ''system'',
        msg_Content = ''If you have obtained the requested information. Please return it directly to the user without making additional tool calls.''\<rparr>]"
  using assms by (simp add: toolCall_body_def state_defs)

theorem runPrompt_tool_result_witness:
  "json_Unmarshal (example_env tool_call_oracle text_tool) (Function_Arguments example_toolCall)
      = Inr [(''arguments'', AString ''get pods'')]
   \<and> mcp_CallTool (example_env tool_call_oracle text_tool) (30 * Second)
        \<lparr>req_Name = ''kubectl'', req_Arguments = AMap [(''arguments'', AString ''get pods'')]\<rparr> ()
      = ((Some (NewToolResultText ''pod-a Running''), None), ())
   \<and> Messages (toolCall_body (example_env tool_call_oracle text_tool) 1 example_state
        example_toolCall)
      = initial_Messages ''are my pods healthy?'' @
          [\<lparr>msg_Role = ''assistant'', msg_Content = ''[{{<nil>} text pod-a Running}]''\<rparr>,
           \<lparr>msg_Role = ''system'',
            msg_Content = ''If you have obtained the requested information. Please return it directly to the user without making additional tool calls.''\<rparr>]"
proof -
  have j: "json_Unmarshal (example_env tool_call_oracle text_tool)
      (Function_Arguments example_toolCall) = Inr [(''arguments'', AString ''get pods'')]"
    by (simp add: example_env_def example_Unmarshal_def example_toolCall_def)
  have n: "Function_Name example_toolCall = ''kubectl''"
    by (simp add: example_toolCall_def)
  have c: "mcp_CallTool (example_env tool_call_oracle text_tool) (30 * Second)
        \<lparr>req_Name = Function_Name example_toolCall,
          req_Arguments = AMap [(''arguments'', AString ''get pods'')]\<rparr> (world example_state)
      = ((Some (NewToolResultText ''pod-a Running''), None), ())"
    by (simp add: example_env_def text_tool_def)
  have e: "Content (NewToolResultText ''pod-a Running'') \<noteq> []"
    by (simp add: NewToolResultText_def)
  have f: "fmt_v (example_env tool_call_oracle text_tool)
      (Content (NewToolResultText ''pod-a Running'')) = ''[{{<nil>} text pod-a Running}]''"
    by (simp add: example_env_def NewToolResultText_def)
  from runPrompt_tool_result [OF j c e, of 1]
  have "Messages (toolCall_body (example_env tool_call_oracle text_tool) 1 example_state
        example_toolCall)
      = initial_Messages ''are my pods healthy?'' @
          [\<lparr>msg_Role = ''assistant'', msg_Content = ''[{{<nil>} text pod-a Running}]''\<rparr>,
           \<lparr>msg_Role = ''system'',
            msg_Content = ''If you have obtained the requested information. Please return it directly to the user without making additional tool calls.''\<rparr>]"
    by (simp add: f example_state_def)
  with j c n show ?thesis by simp
qed

text \<open>
  When the request to the oracle fails, \<^verbatim>\<open>runPrompt\<close> returns at once with the error
  ``failed to create chat completion: <error>''; no tool is invoked and nothing is printed.
\<close>

theorem runPrompt_oracle_failure:
  assumes "iteration < maxIterations"
    and "Completions_New env (Messages st) tools (world st) = (Inl err, w)"
  shows "runPrompt_loop env tools maxIterations iteration st =
     (ReturnError (''failed to create chat completion: '' @ err),
      st\<lparr>world := w, trace := trace st @ [Asked (Messages st)]\<rparr>)"
  using assms by (rule loop_oracle_error)

theorem runPrompt_oracle_failure_witness:
  "(1::int) < 5
   \<and> Completions_New (example_env failing_oracle failing_tool)
        (initial_Messages ''are my pods healthy?'') [] () = (Inl ''401 Unauthorized'', ())
   \<and> runPrompt ''are my pods healthy?'' [] (example_env failing_oracle failing_tool) ()
      = (ReturnError ''failed to create chat completion: 401 Unauthorized'',
         \<lparr>Messages = initial_Messages ''are my pods healthy?'', world = (),
          trace = [Asked (initial_Messages ''are my pods healthy?'')]\<rparr>)"
proof -
  have lt: "(1::int) < 5" by simp
  have c: "Completions_New (example_env failing_oracle failing_tool)
        (Messages \<lparr>Messages = initial_Messages ''are my pods healthy?'', world = (), trace = []\<rparr>)
        [] (world \<lparr>Messages = initial_Messages ''are my pods healthy?'', world = (), trace = []\<rparr>)
      = (Inl ''401 Unauthorized'', ())"
    by (simp add: example_env_def failing_oracle_def)
  from runPrompt_oracle_failure [OF lt c] c lt show ?thesis
    by (simp add: runPrompt_is_loop)
qed

end
